theory Spec2Isabelle
  imports Complex_Main "HOL-Library.Sublist"
begin

section \<open>Numbers and configuration\<close>

text \<open>
  The program computes on columns of IEEE doubles. A column value is modelled as a real
  number wherever the program only adds, multiplies and compares finite values, and as
  \<open>fl\<close> wherever a value can be missing or can leave the finite numbers: \<open>Some x\<close> is the
  finite number \<open>x\<close>, \<open>None\<close> is a missing value (pandas' NaN) or a value whose computation
  passed through a division by zero or a power of a negative base. A comparison with a
  missing value is false. Rounding is not modelled. A boolean column multiplied into
  arithmetic is \<open>of_bool\<close>.
\<close>

type_synonym fl = "real option"

definition fadd :: "fl \<Rightarrow> fl \<Rightarrow> fl" where
  "fadd x y = (case x of None \<Rightarrow> None | Some a \<Rightarrow> (case y of None \<Rightarrow> None | Some b \<Rightarrow> Some (a + b)))"

definition fmul :: "fl \<Rightarrow> fl \<Rightarrow> fl" where
  "fmul x y = (case x of None \<Rightarrow> None | Some a \<Rightarrow> (case y of None \<Rightarrow> None | Some b \<Rightarrow> Some (a * b)))"

definition fdiv :: "fl \<Rightarrow> fl \<Rightarrow> fl" where
  "fdiv x y = (case x of None \<Rightarrow> None | Some a \<Rightarrow>
                (case y of None \<Rightarrow> None | Some b \<Rightarrow> if b = 0 then None else Some (a / b)))"

definition fpow :: "fl \<Rightarrow> real \<Rightarrow> fl" where
  \<comment> \<open>\<open>pow(x, a)\<close> for the two exponents of the program, neither of them an integer.\<close>
  "fpow x a = (case x of None \<Rightarrow> None | Some b \<Rightarrow>
                if b < 0 \<or> (b = 0 \<and> a < 0) then None else Some (b powr a))"

definition fabs :: "fl \<Rightarrow> fl" where
  "fabs x = map_option abs x"

definition fl_ge :: "fl \<Rightarrow> real \<Rightarrow> bool" where
  "fl_ge x c = (case x of None \<Rightarrow> False | Some v \<Rightarrow> v \<ge> c)"

definition fl_lt :: "fl \<Rightarrow> real \<Rightarrow> bool" where
  "fl_lt x c = (case x of None \<Rightarrow> False | Some v \<Rightarrow> v < c)"

text \<open>
  The Weibull columns go through infinities that come back to finite numbers, so they
  keep the special values of the doubles apart: \<open>Fin x\<close> a finite number, \<open>PInf\<close> and
  \<open>NInf\<close> the two infinities, \<open>NaN\<close>. The two zeros of the doubles are the one number 0:
  a division of a finite number by zero has the sign of the dividend. Overflow and
  underflow of a finite result are rounding, and not modelled.
\<close>

datatype ieee = Fin real | PInf | NInf | NaN

fun iadd :: "ieee \<Rightarrow> ieee \<Rightarrow> ieee" where
  "iadd NaN y = NaN"
| "iadd x NaN = NaN"
| "iadd (Fin a) (Fin b) = Fin (a + b)"
| "iadd (Fin a) y = y"
| "iadd x (Fin b) = x"
| "iadd PInf PInf = PInf"
| "iadd NInf NInf = NInf"
| "iadd PInf NInf = NaN"
| "iadd NInf PInf = NaN"

fun idiv :: "ieee \<Rightarrow> ieee \<Rightarrow> ieee" where
  "idiv NaN y = NaN"
| "idiv x NaN = NaN"
| "idiv (Fin a) (Fin b) =
     (if b \<noteq> 0 then Fin (a / b) else if a > 0 then PInf else if a < 0 then NInf else NaN)"
| "idiv (Fin a) y = Fin 0"
| "idiv PInf (Fin b) = (if b < 0 then NInf else PInf)"
| "idiv NInf (Fin b) = (if b < 0 then PInf else NInf)"
| "idiv x y = NaN"

text \<open>
  \<open>pow(x, a)\<close> for an exponent \<open>a\<close> that is not an integer: a negative base gives NaN, and
  an infinite base gives 0 for a negative exponent and infinity for a positive one.
\<close>

fun ipow :: "ieee \<Rightarrow> real \<Rightarrow> ieee" where
  "ipow NaN a = NaN"
| "ipow (Fin b) a =
     (if b > 0 then Fin (b powr a)
      else if b = 0 then (if a < 0 then PInf else Fin 0)
      else NaN)"
| "ipow x a = (if a < 0 then Fin 0 else PInf)"

text \<open>
  The exceptions that the functions below can raise.
\<close>

datatype error = KeyError | ZeroDivisionError | OverflowError | ValueError

text \<open>
  \<open>math.gamma\<close> of the Python library, over the Gamma function \<open>G\<close>, which is a parameter:
  NaN and the positive infinity are returned as they are; the negative infinity, zero
  and the negative integers raise \<open>ValueError\<close>; a result beyond the largest double
  raises \<open>OverflowError\<close>.
\<close>

definition max_double :: real where
  "max_double = 2 ^ 1024 - 2 ^ 971"

definition math_gamma :: "(real \<Rightarrow> real) \<Rightarrow> ieee \<Rightarrow> error + ieee" where
  "math_gamma G x =
     (case x of
        NaN \<Rightarrow> Inr NaN
      | PInf \<Rightarrow> Inr PInf
      | NInf \<Rightarrow> Inl ValueError
      | Fin v \<Rightarrow>
          if v \<le> 0 \<and> of_int \<lfloor>v\<rfloor> = v then Inl ValueError
          else if \<bar>G v\<bar> > max_double then Inl OverflowError
          else Inr (Fin (G v)))"

definition and_then :: "error + 'a \<Rightarrow> ('a \<Rightarrow> error + 'b) \<Rightarrow> error + 'b" where
  "and_then x f = (case x of Inl e \<Rightarrow> Inl e | Inr v \<Rightarrow> f v)"

text \<open>
  The module \<open>model_params\<close> is not part of the sources: its constants are the fields of a
  record that every function takes as an argument.
\<close>

record model_params =
  maxWaterDepth_wind :: real
  fixedOnshore :: real
  onshoreOMKm :: real
  onshoreInstallationKm :: real
  fixedOffshoreFixed :: real
  fixedOffshoreFloating :: real
  offshoreFixedFoundations :: real
  offshoreOMKm :: real
  offshoreInstallationKm :: real
  offshoreCableKm :: real
  availFactor_onshore :: real
  availFactor_offshore :: real
  remove_operational_e :: bool
  oe_wind_onshore :: real
  oe_wind_offshore :: real
  oe_pv :: real
  wind_life_time :: real
  pv_gcr :: real
  wc_pv_panel :: real
  pv_life_time_inputs :: real
  pv_life_time :: real
  sf_residential :: real
  sf_commercial :: real


section \<open>The world grid\<close>

text \<open>
  One row of the input table. \<open>Country\<close> and \<open>v_r_opti\<close> can be null, and the filter
  tests them; \<open>DistCoast\<close> can be missing too, and nothing tests it. The columns that only
  \<open>compute_sf\<close> reads are kept as \<open>land_cover\<close>.
\<close>

record cell =
  Country :: "string option"
  Lat :: real
  Elev :: real
  DistCoast :: fl
  WindMean71 :: real
  WindMean125 :: real
  WindStd71 :: real
  WindStd125 :: real
  GHI :: real
  v_r_opti :: fl
  n_opti :: real
  land_cover :: "real list"

text \<open>
  The module \<open>model_methods\<close> is not part of the sources either. Its functions, and
  the Gamma function that \<open>math.gamma\<close> computes, are the fields of a second record.
  \<open>compute_sf\<close> is given the name of the suitability table and the cell, and returns the
  cell's value of the column it adds. The one function of \<open>model_methods\<close> that the
  specification describes by a formula, \<open>E_out_solar\<close>, is defined below from that
  description, with its constant of proportionality \<open>solar_output_factor\<close> a field here.
\<close>

record model_methods =
  area :: "real \<Rightarrow> real"
  compute_sf :: "string \<Rightarrow> cell \<Rightarrow> real"
  E_out_wind :: "fl \<Rightarrow> real \<Rightarrow> ieee \<Rightarrow> ieee \<Rightarrow> fl \<Rightarrow> real \<Rightarrow> real \<Rightarrow> fl"
  E_in_wind :: "fl \<Rightarrow> real \<Rightarrow> fl \<Rightarrow> real \<Rightarrow> fl \<Rightarrow> fl"
  Gamma :: "real \<Rightarrow> real"
  solar_output_factor :: real

text \<open>
  Modelled from the spec: \<open>model_methods.E_out_solar\<close> is not part of the sources. The
  specification gives it as a direct product-style model, the annual output proportional
  to irradiance times effective collector area.
\<close>

definition E_out_solar :: "model_methods \<Rightarrow> fl \<Rightarrow> fl \<Rightarrow> fl" where
  "E_out_solar m irradiance a = fmul (Some (solar_output_factor m)) (fmul irradiance a)"

text \<open>\<open>str(x)\<close> of a country name; a null prints as \<open>nan\<close>.\<close>

definition str_of :: "string option \<Rightarrow> string" where
  "str_of x = (case x of None \<Rightarrow> ''nan'' | Some s \<Rightarrow> s)"

text \<open>The five successive selections that discard cells.\<close>

definition discard_cells :: "model_params \<Rightarrow> cell list \<Rightarrow> cell list" where
  "discard_cells p df =
     (let df = filter (\<lambda>r. (Country r = None) = False \<and> Country r \<noteq> Some ''Antarctica''
                           \<and> Country r \<noteq> Some ''Greenland''
                           \<and> Country r \<noteq> Some ''French Southern & Antarctic Lands'') df;
          df = filter (\<lambda>r. \<not> sublist ''Island'' (str_of (Country r))) df;
          df = filter (\<lambda>r. \<not> sublist ''Is.'' (str_of (Country r))) df;
          df = filter (\<lambda>r. Elev r \<ge> maxWaterDepth_wind p) df;
          df = filter (\<lambda>r. (v_r_opti r = None) = False) df
      in df)"

text \<open>The exclusion rule in the words of the specification.\<close>

definition retained :: "model_params \<Rightarrow> cell \<Rightarrow> bool" where
  "retained p r =
     (case Country r of
        None \<Rightarrow> False
      | Some name \<Rightarrow>
          name \<notin> {''Antarctica'', ''Greenland'', ''French Southern & Antarctic Lands''}
          \<and> \<not> sublist ''Island'' name \<and> \<not> sublist ''Is.'' name
          \<and> maxWaterDepth_wind p \<le> Elev r \<and> v_r_opti r \<noteq> None)"

text \<open>
  The offshore wind suitability factor, from the value \<open>s\<close> that \<open>compute_sf\<close> gave: the
  four conditional updates of the column, in the order of the source. A missing
  \<open>DistCoast\<close> fails the three tests on the distance.
\<close>

definition derate_offshore :: "model_params \<Rightarrow> real \<Rightarrow> fl \<Rightarrow> real \<Rightarrow> real" where
  "derate_offshore p elev dc s =
     (let s = (if elev < maxWaterDepth_wind p then 0 else s);
          s = (if fl_ge dc 37.04 then s * 0.67 else s);
          s = (if fl_lt dc 37.04 \<and> fl_ge dc 9.26 then s * 0.33 else s);
          s = (if fl_lt dc 9.26 then s * 0.1 else s)
      in s)"

text \<open>The distance-to-coast bands in the words of the specification.\<close>

definition coast_band_factor :: "real \<Rightarrow> real" where
  "coast_band_factor dc = (if dc \<ge> 37.04 then 0.67 else if dc \<ge> 9.26 then 0.33 else 0.1)"

text \<open>Hub height, pressure and air density as functions of the elevation and of \<open>z\<close>.\<close>

definition z_at :: "real \<Rightarrow> real" where
  "z_at elev = elev * of_bool (elev > 0) + 100"

definition P_at :: "real \<Rightarrow> fl" where
  "P_at z = fmul (Some 101325) (fpow (Some (1 - 0.0065 * z / 288.15)) 5.255)"

definition air_density_at :: "real \<Rightarrow> fl" where
  "air_density_at z = fdiv (P_at z) (Some (287.05 * 288.15))"

text \<open>
  The Weibull shape \<open>k\<close> from the standard deviation and the mean at 100 m, and the scale
  \<open>c\<close> from the mean and \<open>k\<close>; \<open>math.gamma\<close> can raise.
\<close>

definition weibull_k :: "real \<Rightarrow> real \<Rightarrow> ieee" where
  "weibull_k std100 mean100 = ipow (idiv (Fin std100) (Fin mean100)) (- 1.086)"

definition weibull_c :: "model_methods \<Rightarrow> real \<Rightarrow> ieee \<Rightarrow> error + ieee" where
  "weibull_c m mean100 k =
     (case math_gamma (Gamma m) (iadd (Fin 1) (idiv (Fin 1) k)) of
        Inl e \<Rightarrow> Inl e
      | Inr gv \<Rightarrow> Inr (idiv (Fin mean100) gv))"

text \<open>
  One row of the table that \<open>world_grid\<close> returns: the input row and the columns added.
  The columns \<open>k\<close>, \<open>c\<close>, \<open>z\<close> and \<open>P\<close> of the source are \<open>col_k\<close>, \<open>col_c\<close>, \<open>col_z\<close>
  and \<open>col_P\<close>.
\<close>

record grid_row =
  raw :: cell
  Area :: real
  wind_sf_onshore :: real
  wind_sf_offshore :: real
  pv_sf :: real
  csp_sf :: real
  slope_pv_sf :: real
  slope_csp_sf :: real
  wind_area_onshore :: real
  wind_area_offshore :: real
  pv_area :: real
  csp_area :: real
  WindMean100 :: real
  WindStd100 :: real
  col_k :: ieee
  col_c :: ieee
  col_z :: real
  col_P :: fl
  air_density :: fl

text \<open>
  The columns of one cell, in the order of the source. The row exists unless
  \<open>math.gamma\<close> raises on it.
\<close>

definition world_grid_row :: "model_params \<Rightarrow> model_methods \<Rightarrow> cell \<Rightarrow> error + grid_row" where
  "world_grid_row p m r =
     (let Area' = area m (Lat r);
          wind_sf_onshore' = compute_sf m ''wind_onshore'' r;
          wind_sf_offshore' = compute_sf m ''wind_offshore'' r;
          pv_sf' = compute_sf m ''pv'' r;
          csp_sf' = compute_sf m ''csp'' r;
          wind_sf_offshore' = derate_offshore p (Elev r) (DistCoast r) wind_sf_offshore';
          slope_pv_sf' = compute_sf m ''slope_pv'' r;
          pv_sf' = pv_sf' * slope_pv_sf';
          slope_csp_sf' = compute_sf m ''slope_csp'' r;
          csp_sf' = csp_sf' * slope_csp_sf';
          WindMean100' = (WindMean71 r + WindMean125 r) / 2;
          WindStd100' = (WindStd71 r + WindStd125 r) / 2;
          k' = weibull_k WindStd100' WindMean100'
      in case weibull_c m WindMean100' k' of
           Inl e \<Rightarrow> Inl e
         | Inr c' \<Rightarrow>
             (let z' = z_at (Elev r)
              in Inr \<lparr>raw = r, Area = Area',
                      wind_sf_onshore = wind_sf_onshore', wind_sf_offshore = wind_sf_offshore',
                      pv_sf = pv_sf', csp_sf = csp_sf',
                      slope_pv_sf = slope_pv_sf', slope_csp_sf = slope_csp_sf',
                      wind_area_onshore = Area' * wind_sf_onshore',
                      wind_area_offshore = Area' * wind_sf_offshore',
                      pv_area = Area' * pv_sf', csp_area = Area' * csp_sf',
                      WindMean100 = WindMean100', WindStd100 = WindStd100',
                      col_k = k', col_c = c', col_z = z', col_P = P_at z',
                      air_density = air_density_at z'\<rparr>))"

text \<open>
  A column is computed row after row: the first row on which a function raises aborts the
  table.
\<close>

fun all_rows :: "('a \<Rightarrow> error + 'b) \<Rightarrow> 'a list \<Rightarrow> error + 'b list" where
  "all_rows f [] = Inr []"
| "all_rows f (x # xs) =
     (case f x of
        Inl e \<Rightarrow> Inl e
      | Inr y \<Rightarrow> (case all_rows f xs of Inl e \<Rightarrow> Inl e | Inr ys \<Rightarrow> Inr (y # ys)))"

definition world_grid :: "model_params \<Rightarrow> model_methods \<Rightarrow> cell list \<Rightarrow> error + grid_row list" where
  "world_grid p m df = all_rows (world_grid_row p m) (discard_cells p df)"

text \<open>\<open>math.gamma\<close> returns on the cell.\<close>

definition gamma_returns :: "model_methods \<Rightarrow> cell \<Rightarrow> bool" where
  "gamma_returns m r =
     (case weibull_c m ((WindMean71 r + WindMean125 r) / 2)
             (weibull_k ((WindStd71 r + WindStd125 r) / 2) ((WindMean71 r + WindMean125 r) / 2)) of
        Inl e \<Rightarrow> False
      | Inr c \<Rightarrow> True)"


section \<open>Energy inputs per GW of offshore wind\<close>

definition scaling_factor_fixed_foundations :: "real \<Rightarrow> real" where
  "scaling_factor_fixed_foundations elev =
     2.19 * of_bool (elev > -40 \<and> elev \<le> -35) + 1.95 * of_bool (elev > -35 \<and> elev \<le> -30)
     + 1.57 * of_bool (elev > -30 \<and> elev \<le> -25) + 1.34 * of_bool (elev > -25 \<and> elev \<le> -20)
     + 1.08 * of_bool (elev > -20 \<and> elev \<le> -15) + 1 * of_bool (elev > -15)"

definition inputs_gw_offshore_base :: "model_params \<Rightarrow> real \<Rightarrow> real" where
  "inputs_gw_offshore_base p elev =
     of_bool (elev \<le> -40) * fixedOffshoreFixed p + of_bool (elev > -40) * fixedOffshoreFloating p"

definition inputs_gw_offshore_at :: "model_params \<Rightarrow> real \<Rightarrow> fl \<Rightarrow> fl" where
  "inputs_gw_offshore_at p elev dc =
     (let v = inputs_gw_offshore_base p elev;
          v = v + scaling_factor_fixed_foundations elev * offshoreFixedFoundations p;
          v = fadd (Some v)
                (fmul (fabs dc)
                   (Some (offshoreOMKm p + offshoreInstallationKm p + offshoreCableKm p)))
      in v)"

definition inputs_gw_onshore_at :: "model_params \<Rightarrow> fl \<Rightarrow> fl" where
  "inputs_gw_onshore_at p dc =
     fadd (Some (fixedOnshore p))
       (fmul (fabs dc) (Some (onshoreOMKm p + onshoreInstallationKm p)))"

text \<open>The step function of the comment and of the specification, one band selected.\<close>

definition selected_band_factor :: "real \<Rightarrow> real" where
  "selected_band_factor elev =
     (if elev > -15 then 1.00
      else if elev > -20 then 1.08
      else if elev > -25 then 1.34
      else if elev > -30 then 1.57
      else if elev > -35 then 1.95
      else if elev > -40 then 2.19
      else 0)"


section \<open>Energy outputs, inputs and EROI of the grid\<close>

text \<open>One row of the table that \<open>world_grid_eroi\<close> returns.\<close>

record eroi_row =
  grid :: grid_row
  inputs_gw_onshore :: fl
  inputs_gw_offshore :: fl
  wind_onshore_e :: fl
  wind_offshore_e :: fl
  wind_e :: fl
  wind_onshore_e_in :: fl
  wind_offshore_e_in :: fl
  wind_e_in :: fl
  wind_onshore_eroi :: fl
  wind_offshore_eroi :: fl
  wind_eroi :: fl
  pv_e :: fl
  pv_e_in :: fl
  pv_eroi :: fl

text \<open>
  The quotient of the two PV lifetimes is a division of two constants of \<open>model_params\<close>,
  not of columns: Python raises when the divisor is zero.
\<close>

definition pv_life_time_ratio :: "model_params \<Rightarrow> error + real" where
  "pv_life_time_ratio p =
     (if pv_life_time p = 0 then Inl ZeroDivisionError
      else Inr (pv_life_time_inputs p / pv_life_time p))"

text \<open>
  The columns of one row; \<open>ratio\<close> is the quotient of the two PV lifetimes, computed once
  for the table.
\<close>

definition world_grid_eroi_row :: "model_params \<Rightarrow> model_methods \<Rightarrow> real \<Rightarrow> grid_row \<Rightarrow> eroi_row" where
  "world_grid_eroi_row p m ratio g =
     (let r = raw g;
          inputs_gw_onshore' = inputs_gw_onshore_at p (DistCoast r);
          inputs_gw_offshore' = inputs_gw_offshore_at p (Elev r) (DistCoast r);
          wind_onshore_e' =
            fmul (E_out_wind m (v_r_opti r) (n_opti r) (col_c g) (col_k g) (air_density g)
                    (wind_area_onshore g) (availFactor_onshore p)) (Some (1 / 10 ^ 18));
          wind_offshore_e' =
            fmul (E_out_wind m (v_r_opti r) (n_opti r) (col_c g) (col_k g) (air_density g)
                    (wind_area_offshore g) (availFactor_offshore p)) (Some (1 / 10 ^ 18));
          wind_onshore_e' = (if remove_operational_e p
                             then fmul wind_onshore_e' (Some (1 - oe_wind_onshore p))
                             else wind_onshore_e');
          wind_offshore_e' = (if remove_operational_e p
                              then fmul wind_offshore_e' (Some (1 - oe_wind_offshore p))
                              else wind_offshore_e');
          wind_e' = fadd wind_onshore_e' wind_offshore_e';
          wind_onshore_e_in' =
            fdiv (fmul (E_in_wind m (v_r_opti r) (n_opti r) (air_density g)
                          (wind_area_onshore g) inputs_gw_onshore') (Some (1 / 10 ^ 18)))
                 (Some (wind_life_time p));
          wind_offshore_e_in' =
            fdiv (fmul (E_in_wind m (v_r_opti r) (n_opti r) (air_density g)
                          (wind_area_offshore g) inputs_gw_offshore') (Some (1 / 10 ^ 18)))
                 (Some (wind_life_time p));
          wind_e_in' = fadd wind_onshore_e_in' wind_offshore_e_in';
          pv_e' = fmul (E_out_solar m (Some (GHI r)) (Some (pv_area g * pv_gcr p)))
                       (Some (1 / 10 ^ 18));
          pv_e' = (if remove_operational_e p then fmul pv_e' (Some (1 - oe_pv p)) else pv_e');
          gw_installed = wc_pv_panel p * pv_area g * pv_gcr p / 10 ^ 9;
          pv_e_in' = Some (ratio * gw_installed * (1 / 10 ^ 18))
      in \<lparr>grid = g,
          inputs_gw_onshore = inputs_gw_onshore', inputs_gw_offshore = inputs_gw_offshore',
          wind_onshore_e = wind_onshore_e', wind_offshore_e = wind_offshore_e',
          wind_e = wind_e',
          wind_onshore_e_in = wind_onshore_e_in', wind_offshore_e_in = wind_offshore_e_in',
          wind_e_in = wind_e_in',
          wind_onshore_eroi = fdiv wind_onshore_e' wind_onshore_e_in',
          wind_offshore_eroi = fdiv wind_offshore_e' wind_offshore_e_in',
          wind_eroi = fdiv wind_e' wind_e_in',
          pv_e = pv_e', pv_e_in = pv_e_in',
          pv_eroi = fdiv pv_e' pv_e_in'\<rparr>)"

text \<open>
  The whole table: the grid is built first. The quotient of the lifetimes is computed
  whatever the rows are, so a zero \<open>pv_life_time\<close> aborts the function.
\<close>

definition world_grid_eroi :: "model_params \<Rightarrow> model_methods \<Rightarrow> cell list \<Rightarrow> error + eroi_row list" where
  "world_grid_eroi p m df =
     and_then (world_grid p m df) (\<lambda>rows.
     and_then (pv_life_time_ratio p) (\<lambda>ratio.
       Inr (map (world_grid_eroi_row p m ratio) rows)))"


section \<open>Rooftop PV\<close>

text \<open>
  The rooftop table is indexed by country: a map from the country to its row. The row of
  the input file holds the two areas; the join adds the column \<open>GHI\<close>, here \<open>GHI_mean\<close>.
\<close>

record rooftop_row =
  Area_PV_Residential :: fl
  Area_PV_Commercial :: fl
  GHI_mean :: fl

text \<open>\<open>groupby(['Country']).mean()['GHI']\<close>: the mean over the cells of a country.\<close>

definition mean_ghi :: "grid_row list \<Rightarrow> string \<Rightarrow> fl" where
  "mean_ghi g cn =
     (let xs = map (\<lambda>x. GHI (raw x)) (filter (\<lambda>x. Country (raw x) = Some cn) g)
      in if xs = [] then None else Some (sum_list xs / real (length xs)))"

text \<open>
  The join: every country of the rooftop table gets the mean of the grid, or a missing
  value when the grid has no cell of that country.
\<close>

definition join_ghi :: "(string \<rightharpoonup> fl \<times> fl) \<Rightarrow> (string \<Rightarrow> fl) \<Rightarrow> (string \<rightharpoonup> rooftop_row)" where
  "join_ghi areas mg cn =
     (case areas cn of
        None \<Rightarrow> None
      | Some (res, com) \<Rightarrow>
          Some \<lparr>Area_PV_Residential = res, Area_PV_Commercial = com, GHI_mean = mg cn\<rparr>)"

text \<open>
  \<open>df.loc[dst, 'GHI'] = v\<close> with one label: an absent label adds a row, its other columns
  missing.
\<close>

definition set_ghi :: "string \<Rightarrow> fl \<Rightarrow> (string \<rightharpoonup> rooftop_row) \<Rightarrow> (string \<rightharpoonup> rooftop_row)" where
  "set_ghi dst v df =
     (case df dst of
        None \<Rightarrow> df(dst \<mapsto> \<lparr>Area_PV_Residential = None, Area_PV_Commercial = None, GHI_mean = v\<rparr>)
      | Some row \<Rightarrow> df(dst \<mapsto> row\<lparr>GHI_mean := v\<rparr>))"

text \<open>
  \<open>df.loc[dst, 'GHI'] = df.loc[src, 'GHI']\<close>: reading an absent label raises \<open>KeyError\<close>.
\<close>

definition copy_ghi :: "string \<Rightarrow> string \<Rightarrow> (string \<rightharpoonup> rooftop_row) \<Rightarrow> error + (string \<rightharpoonup> rooftop_row)" where
  "copy_ghi dst src df =
     (case df src of None \<Rightarrow> Inl KeyError | Some row \<Rightarrow> Inr (set_ghi dst (GHI_mean row) df))"

text \<open>
  \<open>df.loc[labels, 'GHI'] = v\<close> with a list of labels: every label must be present.
\<close>

definition set_ghi_list :: "string list \<Rightarrow> fl \<Rightarrow> (string \<rightharpoonup> rooftop_row) \<Rightarrow> error + (string \<rightharpoonup> rooftop_row)" where
  "set_ghi_list labels v df =
     (if list_all (\<lambda>l. df l \<noteq> None) labels then Inr (fold (\<lambda>l. set_ghi l v) labels df)
      else Inl KeyError)"

definition rooftop_ghi :: "(string \<rightharpoonup> fl \<times> fl) \<Rightarrow> (string \<Rightarrow> fl) \<Rightarrow> error + (string \<rightharpoonup> rooftop_row)" where
  "rooftop_ghi areas mg =
     and_then (copy_ghi ''Singapore'' ''Malaysia'' (join_ghi areas mg)) (\<lambda>df.
     and_then (copy_ghi ''Bahrain'' ''Qatar'' df) (\<lambda>df.
     and_then (copy_ghi ''Chinese Taipei'' ''China'' df) (\<lambda>df.
     and_then (copy_ghi ''Hong Kong, China'' ''China'' df) (\<lambda>df.
     and_then (copy_ghi ''Kosovo'' ''Montenegro'' df) (\<lambda>df.
     set_ghi_list [''Netherlands Antilles'', ''Gibraltar''] (Some 0) df)))))"

text \<open>One row of the table that \<open>world_rooftop_pv\<close> returns.\<close>

record rooftop_pv_row =
  rooftop :: rooftop_row
  residential_e :: fl
  commercial_e :: fl
  residential_e_in :: fl
  commercial_e_in :: fl
  rooftop_pv_e :: fl
  rooftop_pv_e_in :: fl
  rooftop_pv_eroi :: fl

definition rooftop_pv_columns :: "model_params \<Rightarrow> model_methods \<Rightarrow> real \<Rightarrow> rooftop_row \<Rightarrow> rooftop_pv_row" where
  "rooftop_pv_columns p m ratio row =
     (let residential_e' =
            fmul (E_out_solar m (GHI_mean row)
                    (fmul (fmul (Area_PV_Residential row) (Some (10 ^ 6))) (Some (sf_residential p))))
                 (Some (1 / 10 ^ 18));
          commercial_e' =
            fmul (E_out_solar m (GHI_mean row)
                    (fmul (fmul (Area_PV_Commercial row) (Some (10 ^ 6))) (Some (sf_commercial p))))
                 (Some (1 / 10 ^ 18));
          residential_e' = (if remove_operational_e p
                            then fmul residential_e' (Some (1 - oe_pv p)) else residential_e');
          commercial_e' = (if remove_operational_e p
                           then fmul commercial_e' (Some (1 - oe_pv p)) else commercial_e');
          gw_installed_res =
            fdiv (fmul (fmul (fmul (Some (wc_pv_panel p)) (Area_PV_Residential row)) (Some (10 ^ 6)))
                       (Some (sf_residential p)))
                 (Some (10 ^ 9));
          residential_e_in' = fmul (fmul (Some ratio) gw_installed_res) (Some (1 / 10 ^ 18));
          gw_installed_com =
            fdiv (fmul (fmul (fmul (Some (wc_pv_panel p)) (Area_PV_Commercial row)) (Some (10 ^ 6)))
                       (Some (sf_commercial p)))
                 (Some (10 ^ 9));
          commercial_e_in' = fmul (fmul (Some ratio) gw_installed_com) (Some (1 / 10 ^ 18));
          pv_e' = fadd residential_e' commercial_e';
          pv_e_in' = fadd residential_e_in' commercial_e_in'
      in \<lparr>rooftop = row,
          residential_e = residential_e', commercial_e = commercial_e',
          residential_e_in = residential_e_in', commercial_e_in = commercial_e_in',
          rooftop_pv_e = pv_e', rooftop_pv_e_in = pv_e_in',
          rooftop_pv_eroi = fdiv pv_e' pv_e_in'\<rparr>)"

text \<open>
  The whole function: the join and the overrides, then the columns of every row. As in
  \<open>world_grid_eroi\<close>, the quotient of the lifetimes is computed whatever the rows are.
\<close>

definition world_rooftop_pv ::
  "model_params \<Rightarrow> model_methods \<Rightarrow> cell list \<Rightarrow> (string \<rightharpoonup> fl \<times> fl)
     \<Rightarrow> error + (string \<rightharpoonup> rooftop_pv_row)" where
  "world_rooftop_pv p m cells areas =
     and_then (world_grid p m cells) (\<lambda>rows.
     and_then (rooftop_ghi areas (mean_ghi rows)) (\<lambda>df.
     and_then (pv_life_time_ratio p) (\<lambda>ratio.
       Inr (\<lambda>cn. map_option (rooftop_pv_columns p m ratio) (df cn)))))"

text \<open>
  The output-to-input ratio of a unit of rooftop area: a function of the irradiance and of
  the constants, not of the areas.
\<close>

definition rooftop_unit_eroi :: "model_params \<Rightarrow> model_methods \<Rightarrow> real \<Rightarrow> real" where
  "rooftop_unit_eroi p m ghi =
     solar_output_factor m * ghi * (if remove_operational_e p then 1 - oe_pv p else 1)
     / (pv_life_time_inputs p / pv_life_time p * wc_pv_panel p / 10 ^ 9)"

text \<open>The rows of a rooftop table keep their two areas in another.\<close>

definition same_areas :: "(string \<rightharpoonup> rooftop_row) \<Rightarrow> (string \<rightharpoonup> rooftop_row) \<Rightarrow> bool" where
  "same_areas df df' \<longleftrightarrow>
     (\<forall>k row. df k = Some row \<longrightarrow>
        (\<exists>row'. df' k = Some row' \<and> Area_PV_Residential row' = Area_PV_Residential row
                \<and> Area_PV_Commercial row' = Area_PV_Commercial row))"


section \<open>Sample data\<close>

text \<open>
  A configuration, a set of methods, a cell and a rooftop table on which the theorems
  below are instantiated. The three embodied-energy constants are the ones the source
  documents (in GJ); the methods make the wind outputs and inputs proportional to the
  suitable area.
\<close>

definition sample_params :: model_params where
  "sample_params =
     \<lparr>maxWaterDepth_wind = -1000, fixedOnshore = 13744075,
      onshoreOMKm = 100, onshoreInstallationKm = 200,
      fixedOffshoreFixed = 18185974, fixedOffshoreFloating = 26670974,
      offshoreFixedFoundations = 3865754,
      offshoreOMKm = 100, offshoreInstallationKm = 200, offshoreCableKm = 300,
      availFactor_onshore = 0.97, availFactor_offshore = 0.95,
      remove_operational_e = True,
      oe_wind_onshore = 0.035, oe_wind_offshore = 0.007, oe_pv = 0.0097,
      wind_life_time = 25,
      pv_gcr = 0.2, wc_pv_panel = 240, pv_life_time_inputs = 16320000, pv_life_time = 25,
      sf_residential = 0.25, sf_commercial = 0.6\<rparr>"

definition sample_methods :: model_methods where
  "sample_methods =
     \<lparr>area = (\<lambda>lat. 1000),
      compute_sf = (\<lambda>name r. 1 / 2),
      E_out_wind = (\<lambda>v n c k rho a avail. Some (a * avail * 10 ^ 9)),
      E_in_wind = (\<lambda>v n rho a inputs. fmul (Some a) inputs),
      Gamma = (\<lambda>x. 1),
      solar_output_factor = 5000\<rparr>"

definition sample_cell :: cell where
  "sample_cell =
     \<lparr>Country = Some ''Iceland'', Lat = 65, Elev = -18, DistCoast = Some 20,
      WindMean71 = 8, WindMean125 = 9, WindStd71 = 3, WindStd125 = 4,
      GHI = 100, v_r_opti = Some 12, n_opti = 1, land_cover = []\<rparr>"

definition sample_areas :: "string \<rightharpoonup> fl \<times> fl" where
  "sample_areas =
     [''Singapore'' \<mapsto> (Some 10, Some 20), ''Malaysia'' \<mapsto> (Some 100, Some 50),
      ''Qatar'' \<mapsto> (Some 5, Some 5), ''China'' \<mapsto> (Some 900, Some 800),
      ''Montenegro'' \<mapsto> (Some 2, Some 1), ''Netherlands Antilles'' \<mapsto> (Some 1, Some 1),
      ''Gibraltar'' \<mapsto> (Some 1, Some 1)]"


section \<open>Rows and tables\<close>

lemma all_rows_Inr: "all_rows f xs = Inr ys \<longleftrightarrow> list_all2 (\<lambda>x y. f x = Inr y) xs ys"
proof
  assume "all_rows f xs = Inr ys"
  then show "list_all2 (\<lambda>x y. f x = Inr y) xs ys"
    by (induction xs arbitrary: ys) (auto split: sum.splits)
next
  assume "list_all2 (\<lambda>x y. f x = Inr y) xs ys"
  then show "all_rows f xs = Inr ys"
    by (induction rule: list_all2_induct) auto
qed

lemma all_rows_returns:
  assumes "\<forall>x\<in>set xs. \<exists>y. f x = Inr y"
  shows "\<exists>ys. all_rows f xs = Inr ys"
  using assms
proof (induction xs)
  case Nil
  then show ?case by simp
next
  case (Cons x xs)
  then obtain y ys where "f x = Inr y" and "all_rows f xs = Inr ys"
    by auto
  then show ?case by simp
qed

lemma list_all2_rows:
  assumes "list_all2 (\<lambda>x y. f x = Inr y) xs ys" and "\<And>x y. f x = Inr y \<Longrightarrow> sel y = x"
  shows "map sel ys = xs" and "\<forall>y\<in>set ys. f (sel y) = Inr y"
  using assms by (induction xs ys rule: list_all2_induct) auto

lemma world_grid_row_fields:
  assumes "world_grid_row p m r = Inr g"
  shows "raw g = r"
    and "Area g = area m (Lat r)"
    and "wind_sf_onshore g = compute_sf m ''wind_onshore'' r"
    and "wind_sf_offshore g
           = derate_offshore p (Elev r) (DistCoast r) (compute_sf m ''wind_offshore'' r)"
    and "pv_sf g = compute_sf m ''pv'' r * compute_sf m ''slope_pv'' r"
    and "csp_sf g = compute_sf m ''csp'' r * compute_sf m ''slope_csp'' r"
    and "wind_area_onshore g = Area g * wind_sf_onshore g"
    and "wind_area_offshore g = Area g * wind_sf_offshore g"
    and "pv_area g = Area g * pv_sf g"
    and "csp_area g = Area g * csp_sf g"
    and "WindMean100 g = (WindMean71 r + WindMean125 r) / 2"
    and "WindStd100 g = (WindStd71 r + WindStd125 r) / 2"
    and "col_k g = weibull_k (WindStd100 g) (WindMean100 g)"
    and "weibull_c m (WindMean100 g) (col_k g) = Inr (col_c g)"
    and "col_z g = z_at (Elev r)"
    and "col_P g = P_at (col_z g)"
    and "air_density g = air_density_at (col_z g)"
  using assms by (auto simp: world_grid_row_def Let_def split: sum.splits)

lemma world_grid_row_returns:
  "(\<exists>g. world_grid_row p m r = Inr g) \<longleftrightarrow> gamma_returns m r"
  by (auto simp: gamma_returns_def world_grid_row_def Let_def split: sum.splits)

lemma discard_cells_retained: "discard_cells p df = filter (retained p) df"
  by (auto simp: discard_cells_def retained_def str_of_def Let_def
      intro!: filter_cong split: option.splits)

lemma world_grid_rows:
  assumes "world_grid p m df = Inr rows"
  shows "map raw rows = filter (retained p) df"
    and "\<forall>g\<in>set rows. world_grid_row p m (raw g) = Inr g"
    and "\<forall>g\<in>set rows. raw g \<in> set df \<and> retained p (raw g)"
proof -
  have l: "list_all2 (\<lambda>r g. world_grid_row p m r = Inr g) (filter (retained p) df) rows"
    using assms by (simp add: world_grid_def all_rows_Inr discard_cells_retained)
  show m: "map raw rows = filter (retained p) df"
    using l world_grid_row_fields(1) by (rule list_all2_rows(1))
  show "\<forall>g\<in>set rows. world_grid_row p m (raw g) = Inr g"
    using l world_grid_row_fields(1) by (rule list_all2_rows(2))
  show "\<forall>g\<in>set rows. raw g \<in> set df \<and> retained p (raw g)"
  proof
    fix g assume "g \<in> set rows"
    then have "raw g \<in> set (map raw rows)" by simp
    then show "raw g \<in> set df \<and> retained p (raw g)" unfolding m by simp
  qed
qed

lemma world_grid_returns:
  assumes "\<forall>r\<in>set df. retained p r \<longrightarrow> gamma_returns m r"
  shows "\<exists>rows. world_grid p m df = Inr rows"
proof -
  have "\<forall>r\<in>set (discard_cells p df). \<exists>g. world_grid_row p m r = Inr g"
    using assms by (simp add: discard_cells_retained world_grid_row_returns)
  then show ?thesis
    unfolding world_grid_def by (rule all_rows_returns)
qed

lemma world_grid_raises:
  assumes "r \<in> set df" and "retained p r" and "\<not> gamma_returns m r"
  shows "\<exists>e. world_grid p m df = Inl e"
proof (cases "world_grid p m df")
  case (Inl e)
  then show ?thesis by blast
next
  case (Inr rows)
  then have "map raw rows = filter (retained p) df"
    and g: "\<forall>g\<in>set rows. world_grid_row p m (raw g) = Inr g"
    by (rule world_grid_rows)+
  moreover have "r \<in> set (filter (retained p) df)" using assms(1,2) by simp
  ultimately have "r \<in> raw ` set rows" by (metis set_map)
  then obtain g where "g \<in> set rows" "raw g = r" by blast
  with g have "world_grid_row p m r = Inr g" by blast
  with assms(3) show ?thesis using world_grid_row_returns [of p m r] by blast
qed

text \<open>The Weibull columns in the three cases of the mean and the standard deviation.\<close>

lemma weibull_k_positive:
  assumes "0 < mean100" and "0 < std100"
  shows "weibull_k std100 mean100 = Fin ((std100 / mean100) powr (- 1.086))"
    and "0 < (std100 / mean100) powr (- 1.086)"
  using assms by (simp_all add: weibull_k_def)

lemma weibull_k_zero_mean:
  "std100 \<noteq> 0 \<Longrightarrow> weibull_k std100 0 = Fin 0"
  "weibull_k 0 0 = NaN"
  by (simp_all add: weibull_k_def)

lemma weibull_c_finite:
  assumes "0 < k"
  shows "weibull_c m mean100 (Fin k)
           = (if \<bar>Gamma m (1 + 1 / k)\<bar> > max_double then Inl OverflowError
              else Inr (idiv (Fin mean100) (Fin (Gamma m (1 + 1 / k)))))"
proof -
  have "0 < 1 + 1 / k" using assms by (simp add: add_pos_pos)
  then have "\<not> (1 + 1 / k \<le> 0)" by simp
  then show ?thesis
    using assms by (simp add: weibull_c_def math_gamma_def)
qed

lemma weibull_c_zero_mean:
  "weibull_c m 0 (Fin 0) = Inr (Fin 0)"
  "weibull_c m 0 NaN = Inr NaN"
  by (simp_all add: weibull_c_def math_gamma_def)


section \<open>Offshore foundations\<close>

text \<open>
  C1. The base term of \<open>inputs_gw_offshore\<close> on either side of the 40 m threshold: the
  program takes the constant \<open>fixedOffshoreFixed\<close> where \<open>Elev \<le> -40\<close>, as at
  \<open>Elev = -41\<close>, and \<open>fixedOffshoreFloating\<close> where \<open>Elev > -40\<close>, as at \<open>Elev = -10\<close>,
  for every configuration. With the two constants of the source's comment, the base at
  \<open>Elev = -41\<close> is 18185974 and not the floating-foundation constant 26670974.
\<close>

theorem inputs_gw_offshore_base_swapped:
  "inputs_gw_offshore_base p elev
     = (if elev \<le> -40 then fixedOffshoreFixed p else fixedOffshoreFloating p)
   \<and> inputs_gw_offshore_base p (-41) = fixedOffshoreFixed p
   \<and> inputs_gw_offshore_base p (-10) = fixedOffshoreFloating p
   \<and> inputs_gw_offshore (world_grid_eroi_row p m ratio g)
       = inputs_gw_offshore_at p (Elev (raw g)) (DistCoast (raw g))
   \<and> inputs_gw_offshore_at p (-41) (Some dc)
       = Some (fixedOffshoreFixed p
               + \<bar>dc\<bar> * (offshoreOMKm p + offshoreInstallationKm p + offshoreCableKm p))
   \<and> inputs_gw_offshore_base sample_params (-41) = 18185974
   \<and> fixedOffshoreFloating sample_params = 26670974"
  by (simp add: inputs_gw_offshore_base_def inputs_gw_offshore_at_def
      scaling_factor_fixed_foundations_def world_grid_eroi_row_def Let_def sample_params_def
      fadd_def fmul_def fabs_def)

text \<open>
  C2. The sum of indicator-weighted terms is the factor of the one band that contains
  \<open>Elev\<close>: 1.00 above -15, 1.08 on (-20,-15], 1.34 on (-25,-20], 1.57 on (-30,-25],
  1.95 on (-35,-30], 2.19 on (-40,-35] (and no band, factor 0, at -40 and below);
  in particular 1.08 at -18, 1.00 at -10 and 2.19 at -36.
\<close>

theorem scaling_factor_is_selected_band:
  "scaling_factor_fixed_foundations elev = selected_band_factor elev
   \<and> scaling_factor_fixed_foundations (-18) = 1.08
   \<and> scaling_factor_fixed_foundations (-10) = 1.00
   \<and> scaling_factor_fixed_foundations (-36) = 2.19"
  by (simp add: scaling_factor_fixed_foundations_def selected_band_factor_def)

section \<open>Properties of the world grid\<close>

lemma derate_offshore_band:
  "derate_offshore p elev (Some dc) s
     = (if elev < maxWaterDepth_wind p then 0 else s) * coast_band_factor dc"
  by (simp add: derate_offshore_def coast_band_factor_def Let_def fl_ge_def fl_lt_def)

lemma derate_offshore_missing:
  "derate_offshore p elev None s = (if elev < maxWaterDepth_wind p then 0 else s)"
  by (simp add: derate_offshore_def Let_def fl_ge_def fl_lt_def)

lemma coast_band_factor_mono: "d1 \<le> d2 \<Longrightarrow> coast_band_factor d1 \<le> coast_band_factor d2"
  by (simp add: coast_band_factor_def)

lemma coast_band_factor_range: "0 \<le> coast_band_factor dc" "coast_band_factor dc \<le> 1"
  by (simp_all add: coast_band_factor_def)

lemma derate_offshore_range:
  assumes "0 \<le> s" and "s \<le> 1"
  shows "0 \<le> derate_offshore p elev dc s" and "derate_offshore p elev dc s \<le> 1"
proof -
  let ?s = "if elev < maxWaterDepth_wind p then 0 else s"
  have s: "0 \<le> ?s" "?s \<le> 1" using assms by simp_all
  show "0 \<le> derate_offshore p elev dc s"
  proof (cases dc)
    case None
    then show ?thesis using s(1) by (simp only: derate_offshore_missing)
  next
    case (Some d)
    show ?thesis
      unfolding Some derate_offshore_band
      using s(1) coast_band_factor_range(1) by (rule mult_nonneg_nonneg)
  qed
  show "derate_offshore p elev dc s \<le> 1"
  proof (cases dc)
    case None
    then show ?thesis using s(2) by (simp only: derate_offshore_missing)
  next
    case (Some d)
    show ?thesis
      unfolding Some derate_offshore_band
      using s coast_band_factor_range by (intro mult_le_one) simp_all
  qed
qed

lemma derate_offshore_mono:
  assumes "0 \<le> s" and "d1 \<le> d2"
  shows "derate_offshore p elev (Some d1) s \<le> derate_offshore p elev (Some d2) s"
proof -
  let ?s = "if elev < maxWaterDepth_wind p then 0 else s"
  have "0 \<le> ?s" using assms(1) by simp
  moreover have "coast_band_factor d1 \<le> coast_band_factor d2"
    using assms(2) by (rule coast_band_factor_mono)
  ultimately have "?s * coast_band_factor d1 \<le> ?s * coast_band_factor d2"
    by (rule mult_left_mono[rotated])
  then show ?thesis by (simp only: derate_offshore_band)
qed

lemma retained_elev: "retained p r \<Longrightarrow> maxWaterDepth_wind p \<le> Elev r"
  by (simp add: retained_def split: option.splits)

lemma Iceland_no_pattern: "\<not> sublist ''Island'' ''Iceland''" "\<not> sublist ''Is.'' ''Iceland''"
  by code_simp+

lemma Baker_Island_pattern: "sublist ''Island'' ''Baker Island''"
  by code_simp

text \<open>The sample cell, and the cells made from it, on which the grid is evaluated.\<close>

lemma sample_retained:
  assumes "Country r = Some ''Iceland''" and "Elev r = Elev sample_cell"
    and "v_r_opti r = v_r_opti sample_cell"
  shows "retained sample_params r"
  using assms by (simp add: retained_def sample_cell_def sample_params_def Iceland_no_pattern)

lemma max_double_large: "1 \<le> max_double"
  by (simp add: max_double_def)

lemma sample_gamma_returns:
  assumes "WindMean71 r + WindMean125 r > 0" and "WindStd71 r + WindStd125 r > 0"
  shows "gamma_returns sample_methods r"
proof -
  let ?mean = "(WindMean71 r + WindMean125 r) / 2" and ?std = "(WindStd71 r + WindStd125 r) / 2"
  have pos: "0 < ?mean" "0 < ?std" using assms by simp_all
  have k: "weibull_k ?std ?mean = Fin ((?std / ?mean) powr (- 1.086))"
    and kpos: "0 < (?std / ?mean) powr (- 1.086)"
    using pos by (rule weibull_k_positive)+
  have "\<not> \<bar>Gamma sample_methods (1 + 1 / (?std / ?mean) powr (- 1.086))\<bar> > max_double"
    using max_double_large by (simp add: sample_methods_def)
  then show ?thesis
    unfolding gamma_returns_def k weibull_c_finite [OF kpos] by simp
qed

lemma world_grid_single:
  assumes "retained p r" and "gamma_returns m r"
  shows "\<exists>g. world_grid p m [r] = Inr [g] \<and> world_grid_row p m r = Inr g"
proof -
  from assms(2) obtain g where "world_grid_row p m r = Inr g"
    using world_grid_row_returns [of p m r] by blast
  then show ?thesis
    using assms(1) by (simp add: world_grid_def discard_cells_retained)
qed

text \<open>
  C3. For every table on whose retained cells \<open>math.gamma\<close> returns, \<open>world_grid\<close> returns
  the rows of the retained cells, and the offshore wind suitability of a row is the value
  of \<open>compute_sf\<close> times the factor of the one band that holds \<open>DistCoast\<close> when
  \<open>DistCoast\<close> is a number (0.67 from 37.04 km on, 0.33 on [9.26, 37.04), 0.1 below
  9.26 km), and the value of \<open>compute_sf\<close> itself when \<open>DistCoast\<close> is missing. The
  updates of the column set it to zero first when \<open>Elev\<close> is below \<open>maxWaterDepth_wind\<close>,
  which no retained cell is. For a suitability that is not negative before the derating
  and distances that are numbers, the result does not increase when the distance to the
  coast decreases.
\<close>

theorem wind_sf_offshore_derating:
  "((\<forall>r\<in>set df. retained p r \<longrightarrow> gamma_returns m r) \<longrightarrow>
      (\<exists>rows. world_grid p m df = Inr rows \<and> map raw rows = filter (retained p) df
         \<and> (\<forall>g\<in>set rows.
               (\<forall>d. DistCoast (raw g) = Some d \<longrightarrow>
                  wind_sf_offshore g
                    = compute_sf m ''wind_offshore'' (raw g) * coast_band_factor d)
               \<and> (DistCoast (raw g) = None \<longrightarrow>
                  wind_sf_offshore g = compute_sf m ''wind_offshore'' (raw g)))))
   \<and> derate_offshore p elev (Some dc) s
       = (if elev < maxWaterDepth_wind p then 0 else s) * coast_band_factor dc
   \<and> derate_offshore p elev None s = (if elev < maxWaterDepth_wind p then 0 else s)
   \<and> (0 \<le> s \<and> d1 \<le> d2 \<longrightarrow>
        derate_offshore p elev (Some d1) s \<le> derate_offshore p elev (Some d2) s)"
proof (intro conjI impI)
  assume "\<forall>r\<in>set df. retained p r \<longrightarrow> gamma_returns m r"
  then obtain rows where rows: "world_grid p m df = Inr rows"
    using world_grid_returns by blast
  have "\<forall>g\<in>set rows.
          (\<forall>d. DistCoast (raw g) = Some d \<longrightarrow>
             wind_sf_offshore g = compute_sf m ''wind_offshore'' (raw g) * coast_band_factor d)
          \<and> (DistCoast (raw g) = None \<longrightarrow>
             wind_sf_offshore g = compute_sf m ''wind_offshore'' (raw g))"
  proof
    fix g assume g: "g \<in> set rows"
    with rows have row: "world_grid_row p m (raw g) = Inr g"
      and "retained p (raw g)"
      using world_grid_rows(2,3) by blast+
    then have deep: "\<not> Elev (raw g) < maxWaterDepth_wind p"
      using retained_elev [of p "raw g"] by simp
    have sf: "wind_sf_offshore g
                = derate_offshore p (Elev (raw g)) (DistCoast (raw g))
                    (compute_sf m ''wind_offshore'' (raw g))"
      using row by (rule world_grid_row_fields)
    show "(\<forall>d. DistCoast (raw g) = Some d \<longrightarrow>
             wind_sf_offshore g = compute_sf m ''wind_offshore'' (raw g) * coast_band_factor d)
          \<and> (DistCoast (raw g) = None \<longrightarrow>
             wind_sf_offshore g = compute_sf m ''wind_offshore'' (raw g))"
      using deep by (simp add: sf derate_offshore_band derate_offshore_missing)
  qed
  with rows world_grid_rows(1) [OF rows]
  show "\<exists>rows. world_grid p m df = Inr rows \<and> map raw rows = filter (retained p) df
         \<and> (\<forall>g\<in>set rows.
               (\<forall>d. DistCoast (raw g) = Some d \<longrightarrow>
                  wind_sf_offshore g
                    = compute_sf m ''wind_offshore'' (raw g) * coast_band_factor d)
               \<and> (DistCoast (raw g) = None \<longrightarrow>
                  wind_sf_offshore g = compute_sf m ''wind_offshore'' (raw g)))"
    by blast
next
  show "derate_offshore p elev (Some dc) s
       = (if elev < maxWaterDepth_wind p then 0 else s) * coast_band_factor dc"
    by (rule derate_offshore_band)
next
  show "derate_offshore p elev None s = (if elev < maxWaterDepth_wind p then 0 else s)"
    by (rule derate_offshore_missing)
next
  assume "0 \<le> s \<and> d1 \<le> d2"
  then show "derate_offshore p elev (Some d1) s \<le> derate_offshore p elev (Some d2) s"
    using derate_offshore_mono by blast
qed


lemma sample_cell_fields:
  "Country sample_cell = Some ''Iceland''" "Elev sample_cell = -18"
  "DistCoast sample_cell = Some 20" "v_r_opti sample_cell = Some 12"
  "WindMean71 sample_cell = 8" "WindMean125 sample_cell = 9"
  "WindStd71 sample_cell = 3" "WindStd125 sample_cell = 4" "GHI sample_cell = 100"
  "Lat sample_cell = 65" "n_opti sample_cell = 1"
  by (simp_all add: sample_cell_def)

lemma sample_cell_retained:
  "retained sample_params sample_cell"
  "retained sample_params (sample_cell\<lparr>DistCoast := d\<rparr>)"
  by (rule sample_retained; simp add: sample_cell_fields)+

lemma sample_cell_gamma_returns:
  "gamma_returns sample_methods sample_cell"
  "gamma_returns sample_methods (sample_cell\<lparr>DistCoast := d\<rparr>)"
  "gamma_returns sample_methods (sample_cell\<lparr>Country := c\<rparr>)"
  by (rule sample_gamma_returns; simp add: sample_cell_fields)+

theorem wind_sf_offshore_derating_witness:
  "gamma_returns sample_methods sample_cell
   \<and> gamma_returns sample_methods (sample_cell\<lparr>DistCoast := Some 5\<rparr>)
   \<and> gamma_returns sample_methods (sample_cell\<lparr>DistCoast := None\<rparr>)
   \<and> (\<exists>rows. world_grid sample_params sample_methods
                 [sample_cell, sample_cell\<lparr>DistCoast := Some 5\<rparr>,
                  sample_cell\<lparr>DistCoast := None\<rparr>] = Inr rows
              \<and> map wind_sf_offshore rows = [1 / 2 * 0.33, 1 / 2 * 0.1, 1 / 2])
   \<and> (0::real) \<le> 1 / 2 \<and> (5::real) \<le> 20
   \<and> derate_offshore sample_params (-18) (Some 5) (1 / 2)
       \<le> derate_offshore sample_params (-18) (Some 20) (1 / 2)"
proof -
  let ?c1 = "sample_cell" and ?c2 = "sample_cell\<lparr>DistCoast := Some 5\<rparr>"
    and ?c3 = "sample_cell\<lparr>DistCoast := None\<rparr>"
  let ?df = "[?c1, ?c2, ?c3]"
  have gr: "gamma_returns sample_methods ?c1" "gamma_returns sample_methods ?c2"
    "gamma_returns sample_methods ?c3"
    by (rule sample_cell_gamma_returns)+
  have ok: "\<forall>r\<in>set ?df. retained sample_params r \<longrightarrow> gamma_returns sample_methods r"
    using gr by simp
  have keep: "filter (retained sample_params) ?df = ?df"
    by (simp add: sample_cell_retained)
  note t = wind_sf_offshore_derating [of ?df sample_params sample_methods "-18" 5 "1 / 2" 5 20]
  from t ok obtain rows where rows: "world_grid sample_params sample_methods ?df = Inr rows"
    and raws: "map raw rows = filter (retained sample_params) ?df"
    and sf: "\<forall>g\<in>set rows.
               (\<forall>d. DistCoast (raw g) = Some d \<longrightarrow>
                  wind_sf_offshore g
                    = compute_sf sample_methods ''wind_offshore'' (raw g) * coast_band_factor d)
               \<and> (DistCoast (raw g) = None \<longrightarrow>
                  wind_sf_offshore g = compute_sf sample_methods ''wind_offshore'' (raw g))"
    by blast
  from raws obtain g1 g2 g3 where r3: "rows = [g1, g2, g3]"
    and g: "raw g1 = ?c1" "raw g2 = ?c2" "raw g3 = ?c3"
    unfolding keep by (auto simp: map_eq_Cons_conv)
  have "wind_sf_offshore g1 = 1 / 2 * 0.33"
    using sf g(1) by (simp add: r3 sample_cell_fields sample_methods_def coast_band_factor_def)
  moreover have "wind_sf_offshore g2 = 1 / 2 * 0.1"
    using sf g(2) by (simp add: r3 sample_methods_def coast_band_factor_def)
  moreover have "wind_sf_offshore g3 = 1 / 2"
    using sf g(3) by (simp add: r3 sample_methods_def)
  ultimately have vals: "map wind_sf_offshore rows = [1 / 2 * 0.33, 1 / 2 * 0.1, 1 / 2]"
    by (simp add: r3)
  have h: "(0::real) \<le> 1 / 2 \<and> (5::real) \<le> 20" by simp
  with t have mono: "derate_offshore sample_params (-18) (Some 5) (1 / 2)
                 \<le> derate_offshore sample_params (-18) (Some 20) (1 / 2)"
    by blast
  have ex: "\<exists>rows. world_grid sample_params sample_methods ?df = Inr rows
              \<and> map wind_sf_offshore rows = [1 / 2 * 0.33, 1 / 2 * 0.1, 1 / 2]"
    using rows vals by (intro exI conjI)
  show ?thesis
    by (intro conjI) (rule gr(1), rule gr(2), rule gr(3), rule ex, simp, simp, rule mono)
qed

theorem wind_sf_offshore_derating_counterexample:
  "map_sum id (map wind_sf_offshore)
      (world_grid sample_params sample_methods [sample_cell\<lparr>DistCoast := None\<rparr>]) = Inr [1 / 2]
   \<and> compute_sf sample_methods ''wind_offshore'' (sample_cell\<lparr>DistCoast := None\<rparr>) = 1 / 2
   \<and> (1 / 2 :: real) \<noteq> 1 / 2 * 0.67 \<and> (1 / 2 :: real) \<noteq> 1 / 2 * 0.33
   \<and> (1 / 2 :: real) \<noteq> 1 / 2 * 0.1"
proof -
  let ?c = "sample_cell\<lparr>DistCoast := None\<rparr>"
  obtain g where g: "world_grid sample_params sample_methods [?c] = Inr [g]"
    and row: "world_grid_row sample_params sample_methods ?c = Inr g"
    using world_grid_single [OF sample_cell_retained(2) sample_cell_gamma_returns(2)] by blast
  have "wind_sf_offshore g = 1 / 2"
    unfolding world_grid_row_fields(4) [OF row]
    by (simp add: derate_offshore_missing sample_cell_fields sample_params_def sample_methods_def)
  then have a: "map_sum id (map wind_sf_offshore)
                  (world_grid sample_params sample_methods [?c]) = Inr [1 / 2]"
    by (simp add: g)
  have b: "compute_sf sample_methods ''wind_offshore'' ?c = 1 / 2"
    by (simp add: sample_methods_def)
  show ?thesis
    by (intro conjI) (rule a, rule b, simp_all)
qed


lemma air_density_at_formula:
  assumes "z \<le> 288.15 / 0.0065"
  shows "air_density_at z
           = Some (101325 * (1 - 0.0065 * z / 288.15) powr 5.255 / (287.05 * 288.15))"
  using assms by (simp add: air_density_at_def P_at_def fpow_def fmul_def fdiv_def)

lemma air_density_at_decreasing:
  assumes "z1 < z2" and "z2 \<le> 288.15 / 0.0065"
  shows "\<exists>d1 d2. air_density_at z1 = Some d1 \<and> air_density_at z2 = Some d2 \<and> d2 < d1"
proof -
  let ?b1 = "1 - 0.0065 * z1 / 288.15" and ?b2 = "1 - 0.0065 * z2 / 288.15"
  have b: "0 \<le> ?b2" "?b2 < ?b1" using assms by simp_all
  then have pw: "?b2 powr 5.255 < ?b1 powr 5.255"
    by (intro powr_less_mono2) simp_all
  have "z1 \<le> 288.15 / 0.0065" using assms by simp
  then have d1: "air_density_at z1 = Some (101325 * ?b1 powr 5.255 / (287.05 * 288.15))"
    by (rule air_density_at_formula)
  have d2: "air_density_at z2 = Some (101325 * ?b2 powr 5.255 / (287.05 * 288.15))"
    using assms(2) by (rule air_density_at_formula)
  have "101325 * ?b2 powr 5.255 / (287.05 * 288.15) < 101325 * ?b1 powr 5.255 / (287.05 * 288.15)"
    using pw by (simp add: divide_strict_right_mono)
  with d1 d2 show ?thesis by blast
qed

lemma grid_row_hub_height:
  assumes "world_grid_row p m r = Inr g"
  shows "col_z g = max (Elev r) 0 + 100" and "air_density g = air_density_at (col_z g)"
  using world_grid_row_fields(15,17) [OF assms] by (simp_all add: z_at_def max_def)

text \<open>
  C5. For every table on whose retained cells \<open>math.gamma\<close> returns, \<open>world_grid\<close> returns
  the rows of the retained cells, and in every row the hub height is
  \<open>max(Elev, 0) + 100\<close> and the air density is the function \<open>air_density_at\<close> of that height.
  As long as the base of the power is not negative (\<open>z\<close> up to 288.15 / 0.0065 m), the air
  density at \<open>z\<close> is \<open>101325 * (1 - 0.0065 z / 288.15)^5.255 / (287.05 * 288.15)\<close>; there it
  decreases strictly when \<open>z\<close> increases, and at \<open>z = 0\<close> it is
  \<open>101325 / (287.05 * 288.15)\<close>.
\<close>

theorem air_density_barometric:
  "((\<forall>r\<in>set df. retained p r \<longrightarrow> gamma_returns m r) \<longrightarrow>
      (\<exists>rows. world_grid p m df = Inr rows \<and> map raw rows = filter (retained p) df
         \<and> (\<forall>g\<in>set rows.
               col_z g = max (Elev (raw g)) 0 + 100
               \<and> air_density g = air_density_at (col_z g)
               \<and> (col_z g \<le> 288.15 / 0.0065 \<longrightarrow>
                    air_density g
                      = Some (101325 * (1 - 0.0065 * col_z g / 288.15) powr 5.255
                              / (287.05 * 288.15))))))
   \<and> (world_grid_row p m r = Inr g \<longrightarrow>
        col_z g = max (Elev r) 0 + 100 \<and> air_density g = air_density_at (col_z g))
   \<and> (z \<le> 288.15 / 0.0065 \<longrightarrow>
        air_density_at z
          = Some (101325 * (1 - 0.0065 * z / 288.15) powr 5.255 / (287.05 * 288.15)))
   \<and> (z1 < z2 \<and> z2 \<le> 288.15 / 0.0065 \<longrightarrow>
        (\<exists>d1 d2. air_density_at z1 = Some d1 \<and> air_density_at z2 = Some d2 \<and> d2 < d1))
   \<and> air_density_at 0 = Some (101325 / (287.05 * 288.15))"
proof (intro conjI impI)
  assume "\<forall>r\<in>set df. retained p r \<longrightarrow> gamma_returns m r"
  then obtain rows where rows: "world_grid p m df = Inr rows"
    using world_grid_returns by blast
  have "\<forall>g\<in>set rows.
          col_z g = max (Elev (raw g)) 0 + 100
          \<and> air_density g = air_density_at (col_z g)
          \<and> (col_z g \<le> 288.15 / 0.0065 \<longrightarrow>
               air_density g
                 = Some (101325 * (1 - 0.0065 * col_z g / 288.15) powr 5.255
                         / (287.05 * 288.15)))"
  proof
    fix g assume "g \<in> set rows"
    with rows have row: "world_grid_row p m (raw g) = Inr g"
      using world_grid_rows(2) by blast
    show "col_z g = max (Elev (raw g)) 0 + 100
          \<and> air_density g = air_density_at (col_z g)
          \<and> (col_z g \<le> 288.15 / 0.0065 \<longrightarrow>
               air_density g
                 = Some (101325 * (1 - 0.0065 * col_z g / 288.15) powr 5.255
                         / (287.05 * 288.15)))"
      using grid_row_hub_height [OF row] air_density_at_formula [of "col_z g"] by simp
  qed
  with rows world_grid_rows(1) [OF rows]
  show "\<exists>rows. world_grid p m df = Inr rows \<and> map raw rows = filter (retained p) df
         \<and> (\<forall>g\<in>set rows.
               col_z g = max (Elev (raw g)) 0 + 100
               \<and> air_density g = air_density_at (col_z g)
               \<and> (col_z g \<le> 288.15 / 0.0065 \<longrightarrow>
                    air_density g
                      = Some (101325 * (1 - 0.0065 * col_z g / 288.15) powr 5.255
                              / (287.05 * 288.15))))"
    by blast
next
  assume row: "world_grid_row p m r = Inr g"
  show "col_z g = max (Elev r) 0 + 100" by (rule grid_row_hub_height(1) [OF row])
  show "air_density g = air_density_at (col_z g)" by (rule grid_row_hub_height(2) [OF row])
next
  assume "z \<le> 288.15 / 0.0065"
  then show "air_density_at z
          = Some (101325 * (1 - 0.0065 * z / 288.15) powr 5.255 / (287.05 * 288.15))"
    by (rule air_density_at_formula)
next
  assume "z1 < z2 \<and> z2 \<le> 288.15 / 0.0065"
  then show "\<exists>d1 d2. air_density_at z1 = Some d1 \<and> air_density_at z2 = Some d2 \<and> d2 < d1"
    using air_density_at_decreasing by blast
next
  show "air_density_at 0 = Some (101325 / (287.05 * 288.15))"
    by (simp add: air_density_at_def P_at_def fpow_def fmul_def fdiv_def)
qed

theorem air_density_barometric_witness:
  "gamma_returns sample_methods sample_cell
   \<and> (\<exists>g. world_grid sample_params sample_methods [sample_cell] = Inr [g]
          \<and> col_z g = 100 \<and> air_density g = air_density_at 100)
   \<and> (0::real) < 100 \<and> (100::real) \<le> 288.15 / 0.0065
   \<and> air_density_at 0 = Some (101325 / (287.05 * 288.15))
   \<and> (\<exists>d1 d2. air_density_at 0 = Some d1 \<and> air_density_at 100 = Some d2 \<and> d2 < d1)"
proof -
  note gr = sample_cell_gamma_returns(1)
  have ok: "\<forall>r\<in>set [sample_cell]. retained sample_params r \<longrightarrow> gamma_returns sample_methods r"
    using gr by simp
  have keep: "filter (retained sample_params) [sample_cell] = [sample_cell]"
    by (simp add: sample_cell_retained)
  have h: "(0::real) < 100 \<and> (100::real) \<le> 288.15 / 0.0065"
    by simp
  note t = air_density_barometric [of "[sample_cell]" sample_params sample_methods
      sample_cell _ 0 0 100]
  from t ok obtain rows where rows: "world_grid sample_params sample_methods [sample_cell] = Inr rows"
    and raws: "map raw rows = filter (retained sample_params) [sample_cell]"
    and z: "\<forall>g\<in>set rows. col_z g = max (Elev (raw g)) 0 + 100
                           \<and> air_density g = air_density_at (col_z g)"
    by blast
  from raws obtain g where g: "rows = [g]" "raw g = sample_cell"
    unfolding keep by (auto simp: map_eq_Cons_conv)
  have "col_z g = 100" "air_density g = air_density_at 100"
    using z g by (simp_all add: sample_cell_fields)
  with rows g(1) have ex: "\<exists>g. world_grid sample_params sample_methods [sample_cell] = Inr [g]
          \<and> col_z g = 100 \<and> air_density g = air_density_at 100"
    by blast
  from t have at0: "air_density_at 0 = Some (101325 / (287.05 * 288.15))"
    by blast
  from t h have dec: "\<exists>d1 d2. air_density_at 0 = Some d1 \<and> air_density_at 100 = Some d2 \<and> d2 < d1"
    by blast
  show ?thesis
    by (intro conjI) (rule gr, rule ex, simp, simp, rule at0, rule dec)
qed

lemma grid_row_area_bounds:
  assumes area: "0 \<le> area m (Lat r)"
    and sf: "\<forall>name. 0 \<le> compute_sf m name r \<and> compute_sf m name r \<le> 1"
    and row: "world_grid_row p m r = Inr g"
  shows "0 \<le> wind_area_onshore g \<and> wind_area_onshore g \<le> Area g
         \<and> 0 \<le> wind_area_offshore g \<and> wind_area_offshore g \<le> Area g
         \<and> 0 \<le> pv_area g \<and> pv_area g \<le> Area g
         \<and> 0 \<le> csp_area g \<and> csp_area g \<le> Area g"
proof -
  note f = world_grid_row_fields [OF row]
  have A: "0 \<le> Area g" using area by (simp add: f(2))
  have s: "\<And>name. 0 \<le> compute_sf m name r" "\<And>name. compute_sf m name r \<le> 1"
    using sf by simp_all
  have on: "0 \<le> wind_sf_onshore g" "wind_sf_onshore g \<le> 1"
    using s by (simp_all add: f(3))
  have off: "0 \<le> wind_sf_offshore g" "wind_sf_offshore g \<le> 1"
    unfolding f(4) using s by (rule derate_offshore_range)+
  have pv: "0 \<le> pv_sf g" "pv_sf g \<le> 1"
    using s by (simp_all add: f(5) mult_le_one)
  have csp: "0 \<le> csp_sf g" "csp_sf g \<le> 1"
    using s by (simp_all add: f(6) mult_le_one)
  have bound: "\<And>s. 0 \<le> s \<Longrightarrow> s \<le> 1 \<Longrightarrow> 0 \<le> Area g * s \<and> Area g * s \<le> Area g"
    using A by (simp add: mult_left_le)
  show ?thesis
    using bound[OF on] bound[OF off] bound[OF pv] bound[OF csp] by (simp add: f(7-10))
qed

text \<open>
  C6. For every row of the grid and each of the four technologies the suitable area is
  \<open>Area\<close> times the suitability factor of the row; when \<open>Area\<close> is not negative and every
  value of \<open>compute_sf\<close> for the cell lies in [0,1], the suitable area lies between 0 and
  \<open>Area\<close>. This holds of the row of any cell, and of every row of the table that
  \<open>world_grid\<close> returns, which it does when \<open>math.gamma\<close> returns on the retained cells.
\<close>

theorem suitable_area_bounds:
  "(0 \<le> area m (Lat r) \<and> (\<forall>name. 0 \<le> compute_sf m name r \<and> compute_sf m name r \<le> 1)
      \<and> world_grid_row p m r = Inr g \<longrightarrow>
        wind_area_onshore g = Area g * wind_sf_onshore g
        \<and> wind_area_offshore g = Area g * wind_sf_offshore g
        \<and> pv_area g = Area g * pv_sf g
        \<and> csp_area g = Area g * csp_sf g
        \<and> 0 \<le> wind_area_onshore g \<and> wind_area_onshore g \<le> Area g
        \<and> 0 \<le> wind_area_offshore g \<and> wind_area_offshore g \<le> Area g
        \<and> 0 \<le> pv_area g \<and> pv_area g \<le> Area g
        \<and> 0 \<le> csp_area g \<and> csp_area g \<le> Area g)
   \<and> ((\<forall>r\<in>set df. retained p r \<longrightarrow> gamma_returns m r) \<longrightarrow>
      (\<exists>rows. world_grid p m df = Inr rows \<and> map raw rows = filter (retained p) df
         \<and> (\<forall>g\<in>set rows.
               wind_area_onshore g = Area g * wind_sf_onshore g
               \<and> wind_area_offshore g = Area g * wind_sf_offshore g
               \<and> pv_area g = Area g * pv_sf g
               \<and> csp_area g = Area g * csp_sf g
               \<and> (0 \<le> Area g
                    \<and> (\<forall>name. 0 \<le> compute_sf m name (raw g) \<and> compute_sf m name (raw g) \<le> 1)
                    \<longrightarrow>
                    0 \<le> wind_area_onshore g \<and> wind_area_onshore g \<le> Area g
                    \<and> 0 \<le> wind_area_offshore g \<and> wind_area_offshore g \<le> Area g
                    \<and> 0 \<le> pv_area g \<and> pv_area g \<le> Area g
                    \<and> 0 \<le> csp_area g \<and> csp_area g \<le> Area g))))"
proof (rule conjI; rule impI)
  assume a: "0 \<le> area m (Lat r) \<and> (\<forall>name. 0 \<le> compute_sf m name r \<and> compute_sf m name r \<le> 1)
      \<and> world_grid_row p m r = Inr g"
  then have row: "world_grid_row p m r = Inr g" by blast
  from a have "0 \<le> wind_area_onshore g \<and> wind_area_onshore g \<le> Area g
         \<and> 0 \<le> wind_area_offshore g \<and> wind_area_offshore g \<le> Area g
         \<and> 0 \<le> pv_area g \<and> pv_area g \<le> Area g
         \<and> 0 \<le> csp_area g \<and> csp_area g \<le> Area g"
    using grid_row_area_bounds [of m r p g] by blast
  then show "wind_area_onshore g = Area g * wind_sf_onshore g
        \<and> wind_area_offshore g = Area g * wind_sf_offshore g
        \<and> pv_area g = Area g * pv_sf g
        \<and> csp_area g = Area g * csp_sf g
        \<and> 0 \<le> wind_area_onshore g \<and> wind_area_onshore g \<le> Area g
        \<and> 0 \<le> wind_area_offshore g \<and> wind_area_offshore g \<le> Area g
        \<and> 0 \<le> pv_area g \<and> pv_area g \<le> Area g
        \<and> 0 \<le> csp_area g \<and> csp_area g \<le> Area g"
    using world_grid_row_fields(7-10) [OF row] by blast
next
  assume "\<forall>r\<in>set df. retained p r \<longrightarrow> gamma_returns m r"
  then obtain rows where rows: "world_grid p m df = Inr rows"
    using world_grid_returns by blast
  have "\<forall>g\<in>set rows.
               wind_area_onshore g = Area g * wind_sf_onshore g
               \<and> wind_area_offshore g = Area g * wind_sf_offshore g
               \<and> pv_area g = Area g * pv_sf g
               \<and> csp_area g = Area g * csp_sf g
               \<and> (0 \<le> Area g
                    \<and> (\<forall>name. 0 \<le> compute_sf m name (raw g) \<and> compute_sf m name (raw g) \<le> 1)
                    \<longrightarrow>
                    0 \<le> wind_area_onshore g \<and> wind_area_onshore g \<le> Area g
                    \<and> 0 \<le> wind_area_offshore g \<and> wind_area_offshore g \<le> Area g
                    \<and> 0 \<le> pv_area g \<and> pv_area g \<le> Area g
                    \<and> 0 \<le> csp_area g \<and> csp_area g \<le> Area g)"
  proof
    fix g assume "g \<in> set rows"
    with rows have row: "world_grid_row p m (raw g) = Inr g"
      using world_grid_rows(2) by blast
    have A: "Area g = area m (Lat (raw g))" by (rule world_grid_row_fields(2) [OF row])
    show "wind_area_onshore g = Area g * wind_sf_onshore g
               \<and> wind_area_offshore g = Area g * wind_sf_offshore g
               \<and> pv_area g = Area g * pv_sf g
               \<and> csp_area g = Area g * csp_sf g
               \<and> (0 \<le> Area g
                    \<and> (\<forall>name. 0 \<le> compute_sf m name (raw g) \<and> compute_sf m name (raw g) \<le> 1)
                    \<longrightarrow>
                    0 \<le> wind_area_onshore g \<and> wind_area_onshore g \<le> Area g
                    \<and> 0 \<le> wind_area_offshore g \<and> wind_area_offshore g \<le> Area g
                    \<and> 0 \<le> pv_area g \<and> pv_area g \<le> Area g
                    \<and> 0 \<le> csp_area g \<and> csp_area g \<le> Area g)"
      using world_grid_row_fields(7-10) [OF row] grid_row_area_bounds [of m "raw g" p g] row
      unfolding A by blast
  qed
  with rows world_grid_rows(1) [OF rows]
  show "\<exists>rows. world_grid p m df = Inr rows \<and> map raw rows = filter (retained p) df
         \<and> (\<forall>g\<in>set rows.
               wind_area_onshore g = Area g * wind_sf_onshore g
               \<and> wind_area_offshore g = Area g * wind_sf_offshore g
               \<and> pv_area g = Area g * pv_sf g
               \<and> csp_area g = Area g * csp_sf g
               \<and> (0 \<le> Area g
                    \<and> (\<forall>name. 0 \<le> compute_sf m name (raw g) \<and> compute_sf m name (raw g) \<le> 1)
                    \<longrightarrow>
                    0 \<le> wind_area_onshore g \<and> wind_area_onshore g \<le> Area g
                    \<and> 0 \<le> wind_area_offshore g \<and> wind_area_offshore g \<le> Area g
                    \<and> 0 \<le> pv_area g \<and> pv_area g \<le> Area g
                    \<and> 0 \<le> csp_area g \<and> csp_area g \<le> Area g))"
    by blast
qed

theorem suitable_area_bounds_witness:
  "0 \<le> area sample_methods (Lat sample_cell)
   \<and> (\<forall>name. 0 \<le> compute_sf sample_methods name sample_cell
              \<and> compute_sf sample_methods name sample_cell \<le> 1)
   \<and> gamma_returns sample_methods sample_cell
   \<and> (\<exists>g. world_grid sample_params sample_methods [sample_cell] = Inr [g]
          \<and> world_grid_row sample_params sample_methods sample_cell = Inr g
          \<and> Area g = 1000 \<and> wind_area_offshore g = 165 \<and> pv_area g = 250
          \<and> 0 \<le> wind_area_offshore g \<and> wind_area_offshore g \<le> Area g)"
proof -
  have h1: "0 \<le> area sample_methods (Lat sample_cell)"
    by (simp add: sample_methods_def)
  have h2: "\<forall>name. 0 \<le> compute_sf sample_methods name sample_cell
              \<and> compute_sf sample_methods name sample_cell \<le> 1"
    by (simp add: sample_methods_def)
  note gr = sample_cell_gamma_returns(1)
  have ok: "\<forall>r\<in>set [sample_cell]. retained sample_params r \<longrightarrow> gamma_returns sample_methods r"
    using gr by simp
  obtain g where g: "world_grid sample_params sample_methods [sample_cell] = Inr [g]"
    and row: "world_grid_row sample_params sample_methods sample_cell = Inr g"
    using world_grid_single [OF sample_cell_retained(1) sample_cell_gamma_returns(1)] by blast
  note f = world_grid_row_fields [OF row]
  have v: "Area g = 1000" "wind_sf_offshore g = 0.165" "pv_sf g = 1 / 4"
    by (simp_all add: f(2,4,5) sample_methods_def sample_params_def sample_cell_fields
        derate_offshore_band coast_band_factor_def)
  note t = suitable_area_bounds [of sample_methods sample_cell sample_params g "[sample_cell]"]
  from t h1 h2 row have b: "wind_area_offshore g = Area g * wind_sf_offshore g
      \<and> pv_area g = Area g * pv_sf g
      \<and> 0 \<le> wind_area_offshore g \<and> wind_area_offshore g \<le> Area g"
    by blast
  then have "wind_area_offshore g = 165" "pv_area g = 250"
    by (simp_all add: v)
  with g row v(1) b
  have ex: "\<exists>g. world_grid sample_params sample_methods [sample_cell] = Inr [g]
          \<and> world_grid_row sample_params sample_methods sample_cell = Inr g
          \<and> Area g = 1000 \<and> wind_area_offshore g = 165 \<and> pv_area g = 250
          \<and> 0 \<le> wind_area_offshore g \<and> wind_area_offshore g \<le> Area g"
    by blast
  show ?thesis
    by (intro conjI) (rule h1, rule h2, rule gr, rule ex)
qed

text \<open>
  C7. The cells that \<open>world_grid\<close> keeps are exactly, and in their order, the cells of the
  input whose \<open>Country\<close> is not null, is none of Antarctica, Greenland and French Southern
  & Antarctic Lands, contains neither \<open>Island\<close> nor \<open>Is.\<close>, whose \<open>Elev\<close> is at least
  \<open>maxWaterDepth_wind\<close> and whose \<open>v_r_opti\<close> is not null: every table that \<open>world_grid\<close>
  returns has these cells as its rows, and it returns one when \<open>math.gamma\<close> returns on
  them. A cell of Iceland that meets the last two conditions is kept; a cell of Baker
  Island and a cell without country are not.
\<close>

theorem discard_cells_exact:
  "(world_grid p m df = Inr rows \<longrightarrow> map raw rows = filter (retained p) df)
   \<and> ((\<forall>r\<in>set df. retained p r \<longrightarrow> gamma_returns m r) \<longrightarrow>
        (\<exists>rows. world_grid p m df = Inr rows \<and> map raw rows = filter (retained p) df))
   \<and> discard_cells p df = filter (retained p) df
   \<and> (Country r = Some ''Iceland'' \<and> maxWaterDepth_wind p \<le> Elev r \<and> v_r_opti r \<noteq> None
        \<and> r \<in> set df \<longrightarrow> r \<in> set (discard_cells p df))
   \<and> (Country r = Some ''Baker Island'' \<longrightarrow> r \<notin> set (discard_cells p df))
   \<and> (Country r = None \<longrightarrow> r \<notin> set (discard_cells p df))"
proof (intro conjI impI)
  assume "world_grid p m df = Inr rows"
  then show "map raw rows = filter (retained p) df"
    by (rule world_grid_rows(1))
next
  assume "\<forall>r\<in>set df. retained p r \<longrightarrow> gamma_returns m r"
  then obtain rows where rows: "world_grid p m df = Inr rows"
    using world_grid_returns by blast
  with world_grid_rows(1) [OF rows]
  show "\<exists>rows. world_grid p m df = Inr rows \<and> map raw rows = filter (retained p) df"
    by blast
next
  show "discard_cells p df = filter (retained p) df"
    by (rule discard_cells_retained)
next
  assume "Country r = Some ''Iceland'' \<and> maxWaterDepth_wind p \<le> Elev r \<and> v_r_opti r \<noteq> None
        \<and> r \<in> set df"
  then show "r \<in> set (discard_cells p df)"
    by (simp add: discard_cells_retained retained_def Iceland_no_pattern)
next
  assume "Country r = Some ''Baker Island''"
  then show "r \<notin> set (discard_cells p df)"
    by (simp add: discard_cells_retained retained_def Baker_Island_pattern)
next
  assume "Country r = None"
  then show "r \<notin> set (discard_cells p df)"
    by (simp add: discard_cells_retained retained_def)
qed

theorem discard_cells_exact_witness:
  "Country sample_cell = Some ''Iceland''
   \<and> maxWaterDepth_wind sample_params \<le> Elev sample_cell \<and> v_r_opti sample_cell \<noteq> None
   \<and> Country (sample_cell\<lparr>Country := Some ''Baker Island''\<rparr>) = Some ''Baker Island''
   \<and> Country (sample_cell\<lparr>Country := None\<rparr>) = None
   \<and> discard_cells sample_params
        [sample_cell\<lparr>Country := None\<rparr>, sample_cell, sample_cell\<lparr>Country := Some ''Baker Island''\<rparr>]
       = [sample_cell]
   \<and> gamma_returns sample_methods (sample_cell\<lparr>Country := None\<rparr>)
   \<and> gamma_returns sample_methods sample_cell
   \<and> gamma_returns sample_methods (sample_cell\<lparr>Country := Some ''Baker Island''\<rparr>)
   \<and> (\<exists>rows. world_grid sample_params sample_methods
                 [sample_cell\<lparr>Country := None\<rparr>, sample_cell,
                  sample_cell\<lparr>Country := Some ''Baker Island''\<rparr>] = Inr rows
              \<and> map raw rows = [sample_cell])"
proof -
  let ?null = "sample_cell\<lparr>Country := None\<rparr>"
  let ?baker = "sample_cell\<lparr>Country := Some ''Baker Island''\<rparr>"
  let ?df = "[?null, sample_cell, ?baker]"
  have h: "Country sample_cell = Some ''Iceland''"
    "maxWaterDepth_wind sample_params \<le> Elev sample_cell" "v_r_opti sample_cell \<noteq> None"
    by (simp_all add: sample_cell_def sample_params_def)
  have mem: "sample_cell \<in> set ?df" "?baker \<in> set ?df" "?null \<in> set ?df"
    by simp_all
  have gr: "gamma_returns sample_methods ?null" "gamma_returns sample_methods sample_cell"
    "gamma_returns sample_methods ?baker"
    by (rule sample_cell_gamma_returns)+
  have ok: "\<forall>r\<in>set ?df. retained sample_params r \<longrightarrow> gamma_returns sample_methods r"
    using gr by simp
  have eq: "discard_cells sample_params ?df = filter (retained sample_params) ?df"
    using discard_cells_exact [of sample_params sample_methods ?df _ sample_cell] by blast
  have "sample_cell \<in> set (discard_cells sample_params ?df)"
    using discard_cells_exact [of sample_params sample_methods ?df _ sample_cell] h mem(1)
    by blast
  then have r1: "retained sample_params sample_cell"
    unfolding eq set_filter by blast
  have b: "Country ?baker = Some ''Baker Island''" and n: "Country ?null = None"
    by simp_all
  have "?baker \<notin> set (discard_cells sample_params ?df)"
    using discard_cells_exact [of sample_params sample_methods ?df _ ?baker] b by blast
  then have r2: "\<not> retained sample_params ?baker"
    using mem(2) unfolding eq set_filter by blast
  have "?null \<notin> set (discard_cells sample_params ?df)"
    using discard_cells_exact [of sample_params sample_methods ?df _ ?null] n by blast
  then have r3: "\<not> retained sample_params ?null"
    using mem(3) unfolding eq set_filter by blast
  have keep: "filter (retained sample_params) ?df = [sample_cell]"
    using r1 r2 r3 by simp
  have d: "discard_cells sample_params ?df = [sample_cell]"
    unfolding eq by (rule keep)
  have "\<exists>rows. world_grid sample_params sample_methods ?df = Inr rows
              \<and> map raw rows = filter (retained sample_params) ?df"
    using discard_cells_exact [of sample_params sample_methods ?df _ sample_cell] ok by blast
  then have ex: "\<exists>rows. world_grid sample_params sample_methods ?df = Inr rows
              \<and> map raw rows = [sample_cell]"
    unfolding keep .
  show ?thesis
    by (intro conjI) (rule h b n d gr ex)+
qed


section \<open>The Weibull columns\<close>

lemma grid_row_weibull_positive:
  assumes row: "world_grid_row p m r = Inr g"
    and pos: "0 < WindMean100 g" "0 < WindStd100 g"
  shows "\<exists>k. col_k g = Fin k \<and> k = (WindStd100 g / WindMean100 g) powr (- 1.086) \<and> 0 < k
             \<and> \<bar>Gamma m (1 + 1 / k)\<bar> \<le> max_double
             \<and> col_c g = idiv (Fin (WindMean100 g)) (Fin (Gamma m (1 + 1 / k)))
             \<and> (0 < Gamma m (1 + 1 / k) \<longrightarrow>
                  col_c g = Fin (WindMean100 g / Gamma m (1 + 1 / k))
                  \<and> 0 < WindMean100 g / Gamma m (1 + 1 / k))"
proof -
  let ?k = "(WindStd100 g / WindMean100 g) powr (- 1.086)"
  note f = world_grid_row_fields [OF row]
  have k: "col_k g = Fin ?k" and kpos: "0 < ?k"
    unfolding f(13) using pos by (rule weibull_k_positive)+
  have c: "(if \<bar>Gamma m (1 + 1 / ?k)\<bar> > max_double then Inl OverflowError
            else Inr (idiv (Fin (WindMean100 g)) (Fin (Gamma m (1 + 1 / ?k))))) = Inr (col_c g)"
    using f(14) unfolding k weibull_c_finite [OF kpos] .
  then have fits: "\<bar>Gamma m (1 + 1 / ?k)\<bar> \<le> max_double"
    by (simp split: if_splits)
  with c have cv: "col_c g = idiv (Fin (WindMean100 g)) (Fin (Gamma m (1 + 1 / ?k)))"
    by simp
  have "0 < Gamma m (1 + 1 / ?k) \<longrightarrow>
          col_c g = Fin (WindMean100 g / Gamma m (1 + 1 / ?k))
          \<and> 0 < WindMean100 g / Gamma m (1 + 1 / ?k)"
    using pos(1) by (simp add: cv)
  with k kpos fits cv show ?thesis by blast
qed

lemma grid_row_weibull_zero_mean:
  assumes row: "world_grid_row p m r = Inr g" and zero: "WindMean100 g = 0"
  shows "WindStd100 g \<noteq> 0 \<longrightarrow> col_k g = Fin 0 \<and> col_c g = Fin 0"
    and "WindStd100 g = 0 \<longrightarrow> col_k g = NaN \<and> col_c g = NaN"
proof -
  note f = world_grid_row_fields [OF row]
  show "WindStd100 g \<noteq> 0 \<longrightarrow> col_k g = Fin 0 \<and> col_c g = Fin 0"
  proof
    assume "WindStd100 g \<noteq> 0"
    then have k: "col_k g = Fin 0"
      unfolding f(13) zero by (rule weibull_k_zero_mean)
    with f(14) show "col_k g = Fin 0 \<and> col_c g = Fin 0"
      by (simp add: zero weibull_c_zero_mean)
  qed
  show "WindStd100 g = 0 \<longrightarrow> col_k g = NaN \<and> col_c g = NaN"
  proof
    assume s: "WindStd100 g = 0"
    have k: "col_k g = NaN"
      unfolding f(13) zero s by (rule weibull_k_zero_mean)
    with f(14) show "col_k g = NaN \<and> col_c g = NaN"
      by (simp add: zero weibull_c_zero_mean)
  qed
qed

lemma gamma_returns_zero_mean:
  assumes "WindMean71 r + WindMean125 r = 0"
  shows "gamma_returns m r"
proof (cases "WindStd71 r + WindStd125 r = 0")
  case True
  then show ?thesis
    using assms by (simp add: gamma_returns_def weibull_k_zero_mean weibull_c_zero_mean)
next
  case False
  then have "(WindStd71 r + WindStd125 r) / 2 \<noteq> 0" by simp
  then show ?thesis
    using assms by (simp add: gamma_returns_def weibull_k_zero_mean weibull_c_zero_mean)
qed

lemma grid_row_overflow:
  assumes pos: "0 < WindMean71 r + WindMean125 r" "0 < WindStd71 r + WindStd125 r"
    and big: "max_double
                < \<bar>Gamma m (1 + 1 / (((WindStd71 r + WindStd125 r) / 2)
                                       / ((WindMean71 r + WindMean125 r) / 2)) powr (- 1.086))\<bar>"
  shows "world_grid_row p m r = Inl OverflowError" and "\<not> gamma_returns m r"
proof -
  let ?mean = "(WindMean71 r + WindMean125 r) / 2" and ?std = "(WindStd71 r + WindStd125 r) / 2"
  have p: "0 < ?mean" "0 < ?std" using pos by simp_all
  have k: "weibull_k ?std ?mean = Fin ((?std / ?mean) powr (- 1.086))"
    and kpos: "0 < (?std / ?mean) powr (- 1.086)"
    using p by (rule weibull_k_positive)+
  have c: "weibull_c m ?mean (weibull_k ?std ?mean) = Inl OverflowError"
    unfolding k weibull_c_finite [OF kpos] using big by simp
  show "world_grid_row p m r = Inl OverflowError"
    by (simp add: world_grid_row_def Let_def c)
  show "\<not> gamma_returns m r"
    by (simp add: gamma_returns_def c)
qed

text \<open>
  C4. For every table on whose retained cells \<open>math.gamma\<close> returns, \<open>world_grid\<close> returns
  the rows of the retained cells, and in every row \<open>WindMean100\<close> and \<open>WindStd100\<close> are the
  means of the values at 71 m and 125 m, \<open>k\<close> is the power of their quotient and \<open>c\<close> is
  the mean divided by \<open>math.gamma(1 + 1/k)\<close>. With a positive mean and a positive standard
  deviation, \<open>k\<close> is the positive number \<open>(WindStd100 / WindMean100)^(-1.086)\<close>, and \<open>c\<close> is
  the positive number \<open>WindMean100 / Gamma(1 + 1/k)\<close> where the Gamma function is
  positive. With a zero mean, \<open>k\<close> and \<open>c\<close> are NaN when the standard deviation is zero
  too, and both are 0 when it is not; \<open>math.gamma\<close> returns on such a cell. A retained
  cell with a positive mean and a positive standard deviation for which the Gamma
  function exceeds the largest double makes \<open>math.gamma\<close> raise \<open>OverflowError\<close>, and
  \<open>world_grid\<close> raises.
\<close>

theorem weibull_columns:
  "((\<forall>r\<in>set df. retained p r \<longrightarrow> gamma_returns m r) \<longrightarrow>
      (\<exists>rows. world_grid p m df = Inr rows \<and> map raw rows = filter (retained p) df
         \<and> (\<forall>g\<in>set rows.
               WindMean100 g = (WindMean71 (raw g) + WindMean125 (raw g)) / 2
               \<and> WindStd100 g = (WindStd71 (raw g) + WindStd125 (raw g)) / 2
               \<and> col_k g = weibull_k (WindStd100 g) (WindMean100 g)
               \<and> weibull_c m (WindMean100 g) (col_k g) = Inr (col_c g)
               \<and> (0 < WindMean100 g \<and> 0 < WindStd100 g \<longrightarrow>
                    (\<exists>k. col_k g = Fin k
                         \<and> k = (WindStd100 g / WindMean100 g) powr (- 1.086) \<and> 0 < k
                         \<and> \<bar>Gamma m (1 + 1 / k)\<bar> \<le> max_double
                         \<and> col_c g = idiv (Fin (WindMean100 g)) (Fin (Gamma m (1 + 1 / k)))
                         \<and> (0 < Gamma m (1 + 1 / k) \<longrightarrow>
                              col_c g = Fin (WindMean100 g / Gamma m (1 + 1 / k))
                              \<and> 0 < WindMean100 g / Gamma m (1 + 1 / k))))
               \<and> (WindMean100 g = 0 \<and> WindStd100 g \<noteq> 0 \<longrightarrow>
                    col_k g = Fin 0 \<and> col_c g = Fin 0)
               \<and> (WindMean100 g = 0 \<and> WindStd100 g = 0 \<longrightarrow>
                    col_k g = NaN \<and> col_c g = NaN))))
   \<and> (WindMean71 r + WindMean125 r = 0 \<longrightarrow> gamma_returns m r)
   \<and> (0 < WindMean71 r + WindMean125 r \<and> 0 < WindStd71 r + WindStd125 r
        \<and> max_double
            < \<bar>Gamma m (1 + 1 / (((WindStd71 r + WindStd125 r) / 2)
                                   / ((WindMean71 r + WindMean125 r) / 2)) powr (- 1.086))\<bar>
        \<longrightarrow> world_grid_row p m r = Inl OverflowError
            \<and> (r \<in> set df \<and> retained p r \<longrightarrow> (\<exists>e. world_grid p m df = Inl e)))"
proof (rule conjI; (rule conjI)?; rule impI)
  assume "\<forall>r\<in>set df. retained p r \<longrightarrow> gamma_returns m r"
  then obtain rows where rows: "world_grid p m df = Inr rows"
    using world_grid_returns by blast
  have "\<forall>g\<in>set rows.
               WindMean100 g = (WindMean71 (raw g) + WindMean125 (raw g)) / 2
               \<and> WindStd100 g = (WindStd71 (raw g) + WindStd125 (raw g)) / 2
               \<and> col_k g = weibull_k (WindStd100 g) (WindMean100 g)
               \<and> weibull_c m (WindMean100 g) (col_k g) = Inr (col_c g)
               \<and> (0 < WindMean100 g \<and> 0 < WindStd100 g \<longrightarrow>
                    (\<exists>k. col_k g = Fin k
                         \<and> k = (WindStd100 g / WindMean100 g) powr (- 1.086) \<and> 0 < k
                         \<and> \<bar>Gamma m (1 + 1 / k)\<bar> \<le> max_double
                         \<and> col_c g = idiv (Fin (WindMean100 g)) (Fin (Gamma m (1 + 1 / k)))
                         \<and> (0 < Gamma m (1 + 1 / k) \<longrightarrow>
                              col_c g = Fin (WindMean100 g / Gamma m (1 + 1 / k))
                              \<and> 0 < WindMean100 g / Gamma m (1 + 1 / k))))
               \<and> (WindMean100 g = 0 \<and> WindStd100 g \<noteq> 0 \<longrightarrow>
                    col_k g = Fin 0 \<and> col_c g = Fin 0)
               \<and> (WindMean100 g = 0 \<and> WindStd100 g = 0 \<longrightarrow>
                    col_k g = NaN \<and> col_c g = NaN)"
  proof
    fix g assume "g \<in> set rows"
    with rows have row: "world_grid_row p m (raw g) = Inr g"
      using world_grid_rows(2) by blast
    note f = world_grid_row_fields(11-14) [OF row]
    show "WindMean100 g = (WindMean71 (raw g) + WindMean125 (raw g)) / 2
               \<and> WindStd100 g = (WindStd71 (raw g) + WindStd125 (raw g)) / 2
               \<and> col_k g = weibull_k (WindStd100 g) (WindMean100 g)
               \<and> weibull_c m (WindMean100 g) (col_k g) = Inr (col_c g)
               \<and> (0 < WindMean100 g \<and> 0 < WindStd100 g \<longrightarrow>
                    (\<exists>k. col_k g = Fin k
                         \<and> k = (WindStd100 g / WindMean100 g) powr (- 1.086) \<and> 0 < k
                         \<and> \<bar>Gamma m (1 + 1 / k)\<bar> \<le> max_double
                         \<and> col_c g = idiv (Fin (WindMean100 g)) (Fin (Gamma m (1 + 1 / k)))
                         \<and> (0 < Gamma m (1 + 1 / k) \<longrightarrow>
                              col_c g = Fin (WindMean100 g / Gamma m (1 + 1 / k))
                              \<and> 0 < WindMean100 g / Gamma m (1 + 1 / k))))
               \<and> (WindMean100 g = 0 \<and> WindStd100 g \<noteq> 0 \<longrightarrow>
                    col_k g = Fin 0 \<and> col_c g = Fin 0)
               \<and> (WindMean100 g = 0 \<and> WindStd100 g = 0 \<longrightarrow>
                    col_k g = NaN \<and> col_c g = NaN)"
      using f grid_row_weibull_positive [OF row] grid_row_weibull_zero_mean [OF row]
      by blast
  qed
  with rows world_grid_rows(1) [OF rows]
  show "\<exists>rows. world_grid p m df = Inr rows \<and> map raw rows = filter (retained p) df
         \<and> (\<forall>g\<in>set rows.
               WindMean100 g = (WindMean71 (raw g) + WindMean125 (raw g)) / 2
               \<and> WindStd100 g = (WindStd71 (raw g) + WindStd125 (raw g)) / 2
               \<and> col_k g = weibull_k (WindStd100 g) (WindMean100 g)
               \<and> weibull_c m (WindMean100 g) (col_k g) = Inr (col_c g)
               \<and> (0 < WindMean100 g \<and> 0 < WindStd100 g \<longrightarrow>
                    (\<exists>k. col_k g = Fin k
                         \<and> k = (WindStd100 g / WindMean100 g) powr (- 1.086) \<and> 0 < k
                         \<and> \<bar>Gamma m (1 + 1 / k)\<bar> \<le> max_double
                         \<and> col_c g = idiv (Fin (WindMean100 g)) (Fin (Gamma m (1 + 1 / k)))
                         \<and> (0 < Gamma m (1 + 1 / k) \<longrightarrow>
                              col_c g = Fin (WindMean100 g / Gamma m (1 + 1 / k))
                              \<and> 0 < WindMean100 g / Gamma m (1 + 1 / k))))
               \<and> (WindMean100 g = 0 \<and> WindStd100 g \<noteq> 0 \<longrightarrow>
                    col_k g = Fin 0 \<and> col_c g = Fin 0)
               \<and> (WindMean100 g = 0 \<and> WindStd100 g = 0 \<longrightarrow>
                    col_k g = NaN \<and> col_c g = NaN))"
    by blast
next
  assume "WindMean71 r + WindMean125 r = 0"
  then show "gamma_returns m r" by (rule gamma_returns_zero_mean)
next
  assume a: "0 < WindMean71 r + WindMean125 r \<and> 0 < WindStd71 r + WindStd125 r
        \<and> max_double
            < \<bar>Gamma m (1 + 1 / (((WindStd71 r + WindStd125 r) / 2)
                                   / ((WindMean71 r + WindMean125 r) / 2)) powr (- 1.086))\<bar>"
  then have row: "world_grid_row p m r = Inl OverflowError" and no: "\<not> gamma_returns m r"
    using grid_row_overflow(1) [of r m p] grid_row_overflow(2) [of r m] by blast+
  have "r \<in> set df \<and> retained p r \<longrightarrow> (\<exists>e. world_grid p m df = Inl e)"
    using no world_grid_raises [of r df p m] by blast
  with row show "world_grid_row p m r = Inl OverflowError
            \<and> (r \<in> set df \<and> retained p r \<longrightarrow> (\<exists>e. world_grid p m df = Inl e))"
    by blast
qed


theorem weibull_columns_witness:
  "gamma_returns sample_methods sample_cell
   \<and> gamma_returns sample_methods (sample_cell\<lparr>WindMean71 := 0, WindMean125 := 0\<rparr>)
   \<and> gamma_returns sample_methods
        (sample_cell\<lparr>WindMean71 := 0, WindMean125 := 0, WindStd71 := 0, WindStd125 := 0\<rparr>)
   \<and> (\<exists>g1 g2 g3 k.
         world_grid sample_params sample_methods
           [sample_cell, sample_cell\<lparr>WindMean71 := 0, WindMean125 := 0\<rparr>,
            sample_cell\<lparr>WindMean71 := 0, WindMean125 := 0, WindStd71 := 0, WindStd125 := 0\<rparr>]
           = Inr [g1, g2, g3]
         \<and> WindMean100 g1 = 17 / 2 \<and> WindStd100 g1 = 7 / 2
         \<and> col_k g1 = Fin k \<and> 0 < k \<and> col_c g1 = Fin (17 / 2)
         \<and> WindMean100 g2 = 0 \<and> WindStd100 g2 = 7 / 2 \<and> col_k g2 = Fin 0 \<and> col_c g2 = Fin 0
         \<and> WindMean100 g3 = 0 \<and> WindStd100 g3 = 0 \<and> col_k g3 = NaN \<and> col_c g3 = NaN)
   \<and> world_grid_row sample_params (sample_methods\<lparr>Gamma := (\<lambda>x. 2 ^ 1024)\<rparr>) sample_cell
       = Inl OverflowError
   \<and> (\<exists>e. world_grid sample_params (sample_methods\<lparr>Gamma := (\<lambda>x. 2 ^ 1024)\<rparr>) [sample_cell]
            = Inl e)"
proof -
  let ?c1 = "sample_cell" and ?c2 = "sample_cell\<lparr>WindMean71 := 0, WindMean125 := 0\<rparr>"
    and ?c3 = "sample_cell\<lparr>WindMean71 := 0, WindMean125 := 0, WindStd71 := 0, WindStd125 := 0\<rparr>"
  let ?df = "[?c1, ?c2, ?c3]"
  let ?big = "sample_methods\<lparr>Gamma := (\<lambda>x. 2 ^ 1024)\<rparr>"
  have ret: "retained sample_params ?c1" "retained sample_params ?c2" "retained sample_params ?c3"
    by (rule sample_retained; simp add: sample_cell_fields)+
  have keep: "filter (retained sample_params) ?df = ?df"
    using ret by simp
  note t = weibull_columns [of ?df sample_params sample_methods ?c2]
  have z2: "WindMean71 ?c2 + WindMean125 ?c2 = 0" and z3: "WindMean71 ?c3 + WindMean125 ?c3 = 0"
    by simp_all
  have ok2: "gamma_returns sample_methods ?c2"
    by (rule t [THEN conjunct2, THEN conjunct1, THEN mp, OF z2])
  have ok3: "gamma_returns sample_methods ?c3"
    by (rule weibull_columns [of ?df sample_params sample_methods ?c3,
          THEN conjunct2, THEN conjunct1, THEN mp, OF z3])
  have ok: "\<forall>r\<in>set ?df. retained sample_params r \<longrightarrow> gamma_returns sample_methods r"
    using ok2 ok3 sample_cell_gamma_returns(1) by simp
  note tab = t [THEN conjunct1, THEN mp, OF ok]
  from tab obtain rows where rows: "world_grid sample_params sample_methods ?df = Inr rows"
    and raws: "map raw rows = filter (retained sample_params) ?df"
    and cols: "\<forall>g\<in>set rows.
               WindMean100 g = (WindMean71 (raw g) + WindMean125 (raw g)) / 2
               \<and> WindStd100 g = (WindStd71 (raw g) + WindStd125 (raw g)) / 2
               \<and> col_k g = weibull_k (WindStd100 g) (WindMean100 g)
               \<and> weibull_c sample_methods (WindMean100 g) (col_k g) = Inr (col_c g)
               \<and> (0 < WindMean100 g \<and> 0 < WindStd100 g \<longrightarrow>
                    (\<exists>k. col_k g = Fin k
                         \<and> k = (WindStd100 g / WindMean100 g) powr (- 1.086) \<and> 0 < k
                         \<and> \<bar>Gamma sample_methods (1 + 1 / k)\<bar> \<le> max_double
                         \<and> col_c g = idiv (Fin (WindMean100 g))
                                        (Fin (Gamma sample_methods (1 + 1 / k)))
                         \<and> (0 < Gamma sample_methods (1 + 1 / k) \<longrightarrow>
                              col_c g = Fin (WindMean100 g / Gamma sample_methods (1 + 1 / k))
                              \<and> 0 < WindMean100 g / Gamma sample_methods (1 + 1 / k))))
               \<and> (WindMean100 g = 0 \<and> WindStd100 g \<noteq> 0 \<longrightarrow>
                    col_k g = Fin 0 \<and> col_c g = Fin 0)
               \<and> (WindMean100 g = 0 \<and> WindStd100 g = 0 \<longrightarrow>
                    col_k g = NaN \<and> col_c g = NaN)"
    by (elim exE conjE)
  from raws obtain g1 g2 g3 where r3: "rows = [g1, g2, g3]"
    and g: "raw g1 = ?c1" "raw g2 = ?c2" "raw g3 = ?c3"
    unfolding keep by (auto simp: map_eq_Cons_conv)
  have G: "\<And>x. Gamma sample_methods x = 1"
    by (simp add: sample_methods_def)
  have mem: "g1 \<in> set rows" "g2 \<in> set rows" "g3 \<in> set rows"
    by (simp_all add: r3)
  note row1 = bspec [OF cols mem(1)] and row2 = bspec [OF cols mem(2)]
    and row3 = bspec [OF cols mem(3)]
  have m1: "WindMean100 g1 = 17 / 2" "WindStd100 g1 = 7 / 2"
    using row1 [THEN conjunct1] row1 [THEN conjunct2, THEN conjunct1]
    by (simp_all add: g(1) sample_cell_fields)
  have m2: "WindMean100 g2 = 0" "WindStd100 g2 = 7 / 2"
    using row2 [THEN conjunct1] row2 [THEN conjunct2, THEN conjunct1]
    by (simp_all add: g(2) sample_cell_fields)
  have m3: "WindMean100 g3 = 0" "WindStd100 g3 = 0"
    using row3 [THEN conjunct1] row3 [THEN conjunct2, THEN conjunct1]
    by (simp_all add: g(3))
  have p1: "0 < WindMean100 g1 \<and> 0 < WindStd100 g1"
    by (simp add: m1)
  note pos1 = row1 [THEN conjunct2, THEN conjunct2, THEN conjunct2, THEN conjunct2,
      THEN conjunct1, THEN mp, OF p1]
  from pos1 obtain k where k: "col_k g1 = Fin k" "0 < k"
    and c: "0 < Gamma sample_methods (1 + 1 / k) \<longrightarrow>
              col_c g1 = Fin (WindMean100 g1 / Gamma sample_methods (1 + 1 / k))
              \<and> 0 < WindMean100 g1 / Gamma sample_methods (1 + 1 / k)"
    by (elim exE conjE)
  have c1: "col_c g1 = Fin (17 / 2)"
    using c by (simp add: G m1)
  have p2: "WindMean100 g2 = 0 \<and> WindStd100 g2 \<noteq> 0"
    by (simp add: m2)
  note z2' = row2 [THEN conjunct2, THEN conjunct2, THEN conjunct2, THEN conjunct2,
      THEN conjunct2, THEN conjunct1, THEN mp, OF p2]
  have k2: "col_k g2 = Fin 0" "col_c g2 = Fin 0"
    using z2' by simp_all
  have p3: "WindMean100 g3 = 0 \<and> WindStd100 g3 = 0"
    by (simp add: m3)
  note z3' = row3 [THEN conjunct2, THEN conjunct2, THEN conjunct2, THEN conjunct2,
      THEN conjunct2, THEN conjunct2, THEN mp, OF p3]
  have k3: "col_k g3 = NaN" "col_c g3 = NaN"
    using z3' by simp_all
  have ex: "\<exists>g1 g2 g3 k.
         world_grid sample_params sample_methods ?df = Inr [g1, g2, g3]
         \<and> WindMean100 g1 = 17 / 2 \<and> WindStd100 g1 = 7 / 2
         \<and> col_k g1 = Fin k \<and> 0 < k \<and> col_c g1 = Fin (17 / 2)
         \<and> WindMean100 g2 = 0 \<and> WindStd100 g2 = 7 / 2 \<and> col_k g2 = Fin 0 \<and> col_c g2 = Fin 0
         \<and> WindMean100 g3 = 0 \<and> WindStd100 g3 = 0 \<and> col_k g3 = NaN \<and> col_c g3 = NaN"
    by (intro exI [of _ g1] exI [of _ g2] exI [of _ g3] exI [of _ k] conjI)
       (rule rows [unfolded r3] m1 m2 m3 k c1 k2 k3)+
  have big: "0 < WindMean71 sample_cell + WindMean125 sample_cell
      \<and> 0 < WindStd71 sample_cell + WindStd125 sample_cell
      \<and> max_double
          < \<bar>Gamma ?big (1 + 1 / (((WindStd71 sample_cell + WindStd125 sample_cell) / 2)
                        / ((WindMean71 sample_cell + WindMean125 sample_cell) / 2)) powr (- 1.086))\<bar>"
    by (simp add: sample_cell_fields max_double_def)
  have mem1: "sample_cell \<in> set [sample_cell] \<and> retained sample_params sample_cell"
    using ret(1) by simp
  note o = weibull_columns [of "[sample_cell]" sample_params ?big sample_cell,
      THEN conjunct2, THEN conjunct2, THEN mp, OF big]
  have over: "world_grid_row sample_params ?big sample_cell = Inl OverflowError"
    by (rule o [THEN conjunct1])
  have raise: "\<exists>e. world_grid sample_params ?big [sample_cell] = Inl e"
    by (rule o [THEN conjunct2, THEN mp, OF mem1])
  show ?thesis
    by (intro conjI) (rule sample_cell_gamma_returns(1), rule ok2, rule ok3, rule ex, rule over, rule raise)
qed

theorem weibull_columns_counterexample:
  "map_sum id (map WindMean100)
      (world_grid sample_params sample_methods
         [sample_cell\<lparr>WindMean71 := 0, WindMean125 := 0\<rparr>]) = Inr [0]
   \<and> map_sum id (map WindStd100)
      (world_grid sample_params sample_methods
         [sample_cell\<lparr>WindMean71 := 0, WindMean125 := 0\<rparr>]) = Inr [7 / 2]
   \<and> map_sum id (map col_k)
      (world_grid sample_params sample_methods
         [sample_cell\<lparr>WindMean71 := 0, WindMean125 := 0\<rparr>]) = Inr [Fin 0]
   \<and> map_sum id (map col_c)
      (world_grid sample_params sample_methods
         [sample_cell\<lparr>WindMean71 := 0, WindMean125 := 0\<rparr>]) = Inr [Fin 0]
   \<and> Fin 0 \<noteq> NaN"
proof -
  let ?c = "sample_cell\<lparr>WindMean71 := 0, WindMean125 := 0\<rparr>"
  have ret: "retained sample_params ?c"
    by (rule sample_retained; simp add: sample_cell_fields)
  have "gamma_returns sample_methods ?c"
    by (rule gamma_returns_zero_mean) simp
  with ret obtain g where g: "world_grid sample_params sample_methods [?c] = Inr [g]"
    and row: "world_grid_row sample_params sample_methods ?c = Inr g"
    using world_grid_single by blast
  have m: "WindMean100 g = 0" "WindStd100 g = 7 / 2"
    using world_grid_row_fields(11,12) [OF row] by (simp_all add: sample_cell_fields)
  then have "col_k g = Fin 0" "col_c g = Fin 0"
    using grid_row_weibull_zero_mean(1) [OF row] by simp_all
  with m show ?thesis
    by (simp add: g)
qed


section \<open>Properties of the EROI columns\<close>

lemma world_grid_eroi_row_quotients:
  "wind_onshore_eroi (world_grid_eroi_row p m ratio g)
     = fdiv (wind_onshore_e (world_grid_eroi_row p m ratio g))
            (wind_onshore_e_in (world_grid_eroi_row p m ratio g))"
  "wind_offshore_eroi (world_grid_eroi_row p m ratio g)
     = fdiv (wind_offshore_e (world_grid_eroi_row p m ratio g))
            (wind_offshore_e_in (world_grid_eroi_row p m ratio g))"
  "wind_eroi (world_grid_eroi_row p m ratio g)
     = fdiv (fadd (wind_onshore_e (world_grid_eroi_row p m ratio g))
                  (wind_offshore_e (world_grid_eroi_row p m ratio g)))
            (fadd (wind_onshore_e_in (world_grid_eroi_row p m ratio g))
                  (wind_offshore_e_in (world_grid_eroi_row p m ratio g)))"
  "pv_eroi (world_grid_eroi_row p m ratio g)
     = fdiv (pv_e (world_grid_eroi_row p m ratio g)) (pv_e_in (world_grid_eroi_row p m ratio g))"
  by (simp_all add: world_grid_eroi_row_def Let_def)

lemma world_grid_eroi_rows:
  assumes "pv_life_time p \<noteq> 0" and "world_grid p m df = Inr rows"
  shows "world_grid_eroi p m df
           = Inr (map (world_grid_eroi_row p m (pv_life_time_inputs p / pv_life_time p)) rows)"
  using assms by (simp add: world_grid_eroi_def and_then_def pv_life_time_ratio_def)

lemma sample_inputs_gw:
  "inputs_gw_onshore_at sample_params (Some 20) = Some 13750075"
  "inputs_gw_offshore_at sample_params (-18) (Some 20) = Some 30857988.32"
  by (simp_all add: inputs_gw_onshore_at_def inputs_gw_offshore_at_def Let_def
      inputs_gw_offshore_base_def scaling_factor_fixed_foundations_def sample_params_def
      fadd_def fmul_def fabs_def)

lemma sample_grid_row_areas:
  assumes "world_grid_row sample_params sample_methods sample_cell = Inr g"
  shows "wind_area_onshore g = 500" and "wind_area_offshore g = 165"
  using world_grid_row_fields(2,3,4,7,8) [OF assms]
  by (simp_all add: sample_methods_def sample_params_def sample_cell_fields
      derate_offshore_band coast_band_factor_def)

lemma sample_wind_eroi:
  assumes row: "world_grid_row sample_params sample_methods sample_cell = Inr g"
  shows "wind_onshore_eroi (world_grid_eroi_row sample_params sample_methods 652800 g)
           = Some (936050000 / 550003)"
    and "wind_offshore_eroi (world_grid_eroi_row sample_params sample_methods 652800 g)
           = Some (147398437500 / 192862427)"
    and "wind_eroi (world_grid_eroi_row sample_params sample_methods 652800 g)
           = Some (9744964843750 / 7479128483)"
proof -
  note areas = sample_grid_row_areas [OF row]
  have raw: "raw g = sample_cell"
    by (rule world_grid_row_fields(1) [OF row])
  have on_e: "wind_onshore_e (world_grid_eroi_row sample_params sample_methods 652800 g)
                = Some (500 * 0.97 * 10 ^ 9 * (1 / 10 ^ 18) * (1 - 0.035))"
    by (simp add: world_grid_eroi_row_def Let_def areas)
       (simp add: sample_methods_def sample_params_def fmul_def)
  have off_e: "wind_offshore_e (world_grid_eroi_row sample_params sample_methods 652800 g)
                = Some (165 * 0.95 * 10 ^ 9 * (1 / 10 ^ 18) * (1 - 0.007))"
    by (simp add: world_grid_eroi_row_def Let_def areas)
       (simp add: sample_methods_def sample_params_def fmul_def)
  have on_in: "wind_onshore_e_in (world_grid_eroi_row sample_params sample_methods 652800 g)
                = Some (500 * 13750075 * (1 / 10 ^ 18) / 25)"
    by (simp add: world_grid_eroi_row_def Let_def areas raw sample_cell_fields sample_inputs_gw)
       (simp add: sample_methods_def sample_params_def fmul_def fdiv_def)
  have off_in: "wind_offshore_e_in (world_grid_eroi_row sample_params sample_methods 652800 g)
                = Some (165 * 30857988.32 * (1 / 10 ^ 18) / 25)"
    by (simp add: world_grid_eroi_row_def Let_def areas raw sample_cell_fields sample_inputs_gw)
       (simp add: sample_methods_def sample_params_def fmul_def fdiv_def)
  show "wind_onshore_eroi (world_grid_eroi_row sample_params sample_methods 652800 g)
          = Some (936050000 / 550003)"
    unfolding world_grid_eroi_row_quotients on_e on_in by (simp add: fdiv_def)
  show "wind_offshore_eroi (world_grid_eroi_row sample_params sample_methods 652800 g)
          = Some (147398437500 / 192862427)"
    unfolding world_grid_eroi_row_quotients off_e off_in by (simp add: fdiv_def)
  show "wind_eroi (world_grid_eroi_row sample_params sample_methods 652800 g)
          = Some (9744964843750 / 7479128483)"
    unfolding world_grid_eroi_row_quotients on_e on_in off_e off_in
    by (simp add: fdiv_def fadd_def)
qed

lemma sample_world_grid_eroi:
  "map_sum id (map (\<lambda>e. wind_area_onshore (grid e)))
      (world_grid_eroi sample_params sample_methods [sample_cell]) = Inr [500]"
  "map_sum id (map (\<lambda>e. wind_area_offshore (grid e)))
      (world_grid_eroi sample_params sample_methods [sample_cell]) = Inr [165]"
  "map_sum id (map wind_onshore_eroi)
      (world_grid_eroi sample_params sample_methods [sample_cell])
     = Inr [Some (936050000 / 550003)]"
  "map_sum id (map wind_offshore_eroi)
      (world_grid_eroi sample_params sample_methods [sample_cell])
     = Inr [Some (147398437500 / 192862427)]"
  "map_sum id (map wind_eroi)
      (world_grid_eroi sample_params sample_methods [sample_cell])
     = Inr [Some (9744964843750 / 7479128483)]"
proof -
  obtain g where g: "world_grid sample_params sample_methods [sample_cell] = Inr [g]"
    and row: "world_grid_row sample_params sample_methods sample_cell = Inr g"
    using world_grid_single [OF sample_cell_retained(1) sample_cell_gamma_returns(1)] by blast
  have nz: "pv_life_time sample_params \<noteq> 0"
    and r: "pv_life_time_inputs sample_params / pv_life_time sample_params = 652800"
    by (simp_all add: sample_params_def)
  have e: "world_grid_eroi sample_params sample_methods [sample_cell]
             = Inr [world_grid_eroi_row sample_params sample_methods 652800 g]"
    using world_grid_eroi_rows [OF nz g] by (simp add: r)
  have gr: "grid (world_grid_eroi_row sample_params sample_methods 652800 g) = g"
    by (simp add: world_grid_eroi_row_def Let_def)
  show "map_sum id (map (\<lambda>e. wind_area_onshore (grid e)))
      (world_grid_eroi sample_params sample_methods [sample_cell]) = Inr [500]"
    by (simp add: e gr sample_grid_row_areas [OF row])
  show "map_sum id (map (\<lambda>e. wind_area_offshore (grid e)))
      (world_grid_eroi sample_params sample_methods [sample_cell]) = Inr [165]"
    by (simp add: e gr sample_grid_row_areas [OF row])
  show "map_sum id (map wind_onshore_eroi)
      (world_grid_eroi sample_params sample_methods [sample_cell])
     = Inr [Some (936050000 / 550003)]"
    by (simp add: e sample_wind_eroi [OF row])
  show "map_sum id (map wind_offshore_eroi)
      (world_grid_eroi sample_params sample_methods [sample_cell])
     = Inr [Some (147398437500 / 192862427)]"
    by (simp add: e sample_wind_eroi [OF row])
  show "map_sum id (map wind_eroi)
      (world_grid_eroi sample_params sample_methods [sample_cell])
     = Inr [Some (9744964843750 / 7479128483)]"
    by (simp add: e sample_wind_eroi [OF row])
qed

lemma sample_rooftop_zero_ghi:
  "rooftop_pv_eroi (rooftop_pv_columns sample_params sample_methods 652800
      \<lparr>Area_PV_Residential = Some 1, Area_PV_Commercial = Some 1, GHI_mean = Some 0\<rparr>) = Some 0"
  by (simp add: rooftop_pv_columns_def Let_def E_out_solar_def sample_params_def
      sample_methods_def fmul_def fdiv_def fadd_def)

text \<open>
  C8. Every EROI column is the quotient of its output column by its input column and
  nothing else: for a row of the grid the onshore, the offshore and the PV EROI, and the
  combined wind EROI as (onshore_e + offshore_e) / (onshore_e_in + offshore_e_in); for a
  rooftop row \<open>pv_eroi\<close> as \<open>pv_e / pv_e_in\<close>, not raised to 1. These rows are the rows of
  the table that \<open>world_grid_eroi\<close> returns, which it does when \<open>pv_life_time\<close> is not zero
  and \<open>math.gamma\<close> returns on the retained cells. The rooftop row with GHI 0 has
  \<open>pv_eroi\<close> 0, below 1. On the table of the sample cell, whose onshore and offshore
  areas are 500 and 165, the combined wind EROI is not the mean of the onshore and
  offshore EROI.
\<close>

theorem eroi_is_output_over_input:
  "wind_onshore_eroi (world_grid_eroi_row p m ratio g)
     = fdiv (wind_onshore_e (world_grid_eroi_row p m ratio g))
            (wind_onshore_e_in (world_grid_eroi_row p m ratio g))
   \<and> wind_offshore_eroi (world_grid_eroi_row p m ratio g)
     = fdiv (wind_offshore_e (world_grid_eroi_row p m ratio g))
            (wind_offshore_e_in (world_grid_eroi_row p m ratio g))
   \<and> wind_eroi (world_grid_eroi_row p m ratio g)
     = fdiv (fadd (wind_onshore_e (world_grid_eroi_row p m ratio g))
                  (wind_offshore_e (world_grid_eroi_row p m ratio g)))
            (fadd (wind_onshore_e_in (world_grid_eroi_row p m ratio g))
                  (wind_offshore_e_in (world_grid_eroi_row p m ratio g)))
   \<and> pv_eroi (world_grid_eroi_row p m ratio g)
     = fdiv (pv_e (world_grid_eroi_row p m ratio g)) (pv_e_in (world_grid_eroi_row p m ratio g))
   \<and> rooftop_pv_eroi (rooftop_pv_columns p m ratio row)
     = fdiv (rooftop_pv_e (rooftop_pv_columns p m ratio row))
            (rooftop_pv_e_in (rooftop_pv_columns p m ratio row))
   \<and> (pv_life_time p \<noteq> 0 \<and> world_grid p m df = Inr rows \<longrightarrow>
        world_grid_eroi p m df
          = Inr (map (world_grid_eroi_row p m (pv_life_time_inputs p / pv_life_time p)) rows))
   \<and> (pv_life_time p \<noteq> 0 \<and> (\<forall>r\<in>set df. retained p r \<longrightarrow> gamma_returns m r) \<longrightarrow>
        (\<exists>rows. world_grid p m df = Inr rows \<and> map raw rows = filter (retained p) df
           \<and> world_grid_eroi p m df
               = Inr (map (world_grid_eroi_row p m (pv_life_time_inputs p / pv_life_time p))
                          rows)))
   \<and> rooftop_pv_eroi (rooftop_pv_columns sample_params sample_methods 652800
        \<lparr>Area_PV_Residential = Some 1, Area_PV_Commercial = Some 1, GHI_mean = Some 0\<rparr>) = Some 0
   \<and> map_sum id (map (\<lambda>e. wind_area_onshore (grid e)))
        (world_grid_eroi sample_params sample_methods [sample_cell]) = Inr [500]
   \<and> map_sum id (map (\<lambda>e. wind_area_offshore (grid e)))
        (world_grid_eroi sample_params sample_methods [sample_cell]) = Inr [165]
   \<and> map_sum id (map wind_onshore_eroi)
        (world_grid_eroi sample_params sample_methods [sample_cell])
       = Inr [Some (936050000 / 550003)]
   \<and> map_sum id (map wind_offshore_eroi)
        (world_grid_eroi sample_params sample_methods [sample_cell])
       = Inr [Some (147398437500 / 192862427)]
   \<and> map_sum id (map wind_eroi)
        (world_grid_eroi sample_params sample_methods [sample_cell])
       = Inr [Some (9744964843750 / 7479128483)]
   \<and> (9744964843750 / 7479128483 :: real)
       \<noteq> (936050000 / 550003 + 147398437500 / 192862427) / 2"
proof (intro conjI)
  show "rooftop_pv_eroi (rooftop_pv_columns p m ratio row)
     = fdiv (rooftop_pv_e (rooftop_pv_columns p m ratio row))
            (rooftop_pv_e_in (rooftop_pv_columns p m ratio row))"
    by (simp add: rooftop_pv_columns_def Let_def)
  show "pv_life_time p \<noteq> 0 \<and> world_grid p m df = Inr rows \<longrightarrow>
        world_grid_eroi p m df
          = Inr (map (world_grid_eroi_row p m (pv_life_time_inputs p / pv_life_time p)) rows)"
    using world_grid_eroi_rows by blast
  show "pv_life_time p \<noteq> 0 \<and> (\<forall>r\<in>set df. retained p r \<longrightarrow> gamma_returns m r) \<longrightarrow>
        (\<exists>rows. world_grid p m df = Inr rows \<and> map raw rows = filter (retained p) df
           \<and> world_grid_eroi p m df
               = Inr (map (world_grid_eroi_row p m (pv_life_time_inputs p / pv_life_time p))
                          rows))"
  proof
    assume a: "pv_life_time p \<noteq> 0 \<and> (\<forall>r\<in>set df. retained p r \<longrightarrow> gamma_returns m r)"
    then obtain rows where rows: "world_grid p m df = Inr rows"
      using world_grid_returns by blast
    from a have nz: "pv_life_time p \<noteq> 0" by blast
    show "\<exists>rows. world_grid p m df = Inr rows \<and> map raw rows = filter (retained p) df
           \<and> world_grid_eroi p m df
               = Inr (map (world_grid_eroi_row p m (pv_life_time_inputs p / pv_life_time p))
                          rows)"
      using rows world_grid_rows(1) [OF rows] world_grid_eroi_rows [OF nz rows] by blast
  qed
  show "(9744964843750 / 7479128483 :: real)
       \<noteq> (936050000 / 550003 + 147398437500 / 192862427) / 2"
    by simp
qed (rule world_grid_eroi_row_quotients sample_world_grid_eroi sample_rooftop_zero_ghi)+

theorem eroi_is_output_over_input_witness:
  "pv_life_time sample_params \<noteq> 0
   \<and> gamma_returns sample_methods sample_cell
   \<and> (\<exists>g. world_grid sample_params sample_methods [sample_cell] = Inr [g]
          \<and> world_grid_eroi sample_params sample_methods [sample_cell]
              = Inr [world_grid_eroi_row sample_params sample_methods 652800 g])"
proof -
  have h: "pv_life_time sample_params \<noteq> 0"
    by (simp add: sample_params_def)
  have r: "pv_life_time_inputs sample_params / pv_life_time sample_params = 652800"
    by (simp add: sample_params_def)
  note gr = sample_cell_gamma_returns(1)
  have ok: "\<forall>r\<in>set [sample_cell]. retained sample_params r \<longrightarrow> gamma_returns sample_methods r"
    using gr by simp
  have keep: "filter (retained sample_params) [sample_cell] = [sample_cell]"
    by (simp add: sample_cell_retained)
  from eroi_is_output_over_input [of sample_params sample_methods 652800 _
      "\<lparr>Area_PV_Residential = Some 1, Area_PV_Commercial = Some 1, GHI_mean = Some 0\<rparr>"
      "[sample_cell]"] h ok
  obtain rows where rows: "world_grid sample_params sample_methods [sample_cell] = Inr rows"
    and raws: "map raw rows = filter (retained sample_params) [sample_cell]"
    and e: "world_grid_eroi sample_params sample_methods [sample_cell]
              = Inr (map (world_grid_eroi_row sample_params sample_methods
                       (pv_life_time_inputs sample_params / pv_life_time sample_params)) rows)"
    by blast
  from raws obtain g where g: "rows = [g]"
    unfolding keep by (auto simp: map_eq_Cons_conv)
  have ex: "\<exists>g. world_grid sample_params sample_methods [sample_cell] = Inr [g]
          \<and> world_grid_eroi sample_params sample_methods [sample_cell]
              = Inr [world_grid_eroi_row sample_params sample_methods 652800 g]"
    using rows e unfolding g r by (intro exI [of _ g]) simp
  show ?thesis
    by (intro conjI) (rule h, rule gr, rule ex)
qed


section \<open>Properties of the rooftop table\<close>

lemma set_ghi_same: "\<exists>row. set_ghi dst v df dst = Some row \<and> GHI_mean row = v"
  by (simp add: set_ghi_def split: option.splits)

lemma set_ghi_other: "k \<noteq> dst \<Longrightarrow> set_ghi dst v df k = df k"
  by (simp add: set_ghi_def split: option.splits)

lemma set_ghi_present: "df k \<noteq> None \<Longrightarrow> set_ghi dst v df k \<noteq> None"
  by (simp add: set_ghi_def split: option.splits)

lemma copy_ghi_present:
  assumes "df src \<noteq> None"
  shows "\<exists>v. copy_ghi dst src df = Inr (set_ghi dst v df)"
  using assms by (auto simp: copy_ghi_def)

lemma join_ghi_present: "cn \<in> dom areas \<Longrightarrow> join_ghi areas mg cn \<noteq> None"
  by (auto simp: join_ghi_def)

lemma join_ghi_value: "join_ghi areas mg cn = Some row \<Longrightarrow> GHI_mean row = mg cn"
  by (auto simp: join_ghi_def split: option.splits)

lemma rooftop_ghi_result:
  assumes present: "{''Malaysia'', ''Qatar'', ''China'', ''Montenegro'',
                     ''Netherlands Antilles'', ''Gibraltar''} \<subseteq> dom areas"
  shows "\<exists>df sg my na gi.
           rooftop_ghi areas mg = Inr df
           \<and> df ''Singapore'' = Some sg \<and> GHI_mean sg = mg ''Malaysia''
           \<and> df ''Malaysia'' = Some my \<and> GHI_mean my = mg ''Malaysia''
           \<and> df ''Netherlands Antilles'' = Some na \<and> GHI_mean na = Some 0
           \<and> df ''Gibraltar'' = Some gi \<and> GHI_mean gi = Some 0"
proof -
  define K where "K = {''Malaysia'', ''Qatar'', ''China'', ''Montenegro'',
                       ''Netherlands Antilles'', ''Gibraltar''}"
  have K: "''Malaysia'' \<in> K" "''Qatar'' \<in> K" "''China'' \<in> K" "''Montenegro'' \<in> K"
    "''Netherlands Antilles'' \<in> K" "''Gibraltar'' \<in> K"
    by (simp_all add: K_def)
  have present': "K \<subseteq> dom areas"
    using present by (simp only: K_def)
  define df0 where "df0 = join_ghi areas mg"
  have keeps: "\<And>df dst v. \<forall>k\<in>K. df k \<noteq> None \<Longrightarrow> \<forall>k\<in>K. set_ghi dst v df k \<noteq> None"
    by (simp add: set_ghi_present)
  have p0: "\<forall>k\<in>K. df0 k \<noteq> None"
  proof
    fix k assume "k \<in> K"
    with present' have "k \<in> dom areas" by (rule subsetD)
    then show "df0 k \<noteq> None" unfolding df0_def by (rule join_ghi_present)
  qed
  from p0 K(1) have "df0 ''Malaysia'' \<noteq> None" by (rule bspec)
  then obtain my where my: "df0 ''Malaysia'' = Some my" by (cases "df0 ''Malaysia''") simp_all
  then have my_v: "GHI_mean my = mg ''Malaysia''"
    unfolding df0_def by (rule join_ghi_value)
  define df1 where "df1 = set_ghi ''Singapore'' (GHI_mean my) df0"
  have c1: "copy_ghi ''Singapore'' ''Malaysia'' df0 = Inr df1"
    using my by (simp add: copy_ghi_def df1_def)
  have p1: "\<forall>k\<in>K. df1 k \<noteq> None"
    unfolding df1_def using p0 by (rule keeps)
  obtain sg where sg: "df1 ''Singapore'' = Some sg" "GHI_mean sg = mg ''Malaysia''"
    using set_ghi_same [of "''Singapore''" "GHI_mean my" df0] my_v unfolding df1_def by auto
  have my1: "df1 ''Malaysia'' = Some my"
    using my unfolding df1_def by (simp add: set_ghi_other)
  from p1 K(2) have "df1 ''Qatar'' \<noteq> None" by (rule bspec)
  then have "\<exists>v. copy_ghi ''Bahrain'' ''Qatar'' df1 = Inr (set_ghi ''Bahrain'' v df1)"
    by (rule copy_ghi_present)
  then obtain v2 where c2: "copy_ghi ''Bahrain'' ''Qatar'' df1 = Inr (set_ghi ''Bahrain'' v2 df1)" ..
  define df2 where "df2 = set_ghi ''Bahrain'' v2 df1"
  have p2: "\<forall>k\<in>K. df2 k \<noteq> None"
    unfolding df2_def using p1 by (rule keeps)
  have k2: "df2 ''Singapore'' = Some sg" "df2 ''Malaysia'' = Some my"
    using sg(1) my1 unfolding df2_def by (simp_all add: set_ghi_other)
  from p2 K(3) have "df2 ''China'' \<noteq> None" by (rule bspec)
  then have "\<exists>v. copy_ghi ''Chinese Taipei'' ''China'' df2 = Inr (set_ghi ''Chinese Taipei'' v df2)"
    by (rule copy_ghi_present)
  then obtain v3 where c3: "copy_ghi ''Chinese Taipei'' ''China'' df2 = Inr (set_ghi ''Chinese Taipei'' v3 df2)" ..
  define df3 where "df3 = set_ghi ''Chinese Taipei'' v3 df2"
  have p3: "\<forall>k\<in>K. df3 k \<noteq> None"
    unfolding df3_def using p2 by (rule keeps)
  have k3: "df3 ''Singapore'' = Some sg" "df3 ''Malaysia'' = Some my"
    using k2 unfolding df3_def by (simp_all add: set_ghi_other)
  from p3 K(3) have "df3 ''China'' \<noteq> None" by (rule bspec)
  then have "\<exists>v. copy_ghi ''Hong Kong, China'' ''China'' df3 = Inr (set_ghi ''Hong Kong, China'' v df3)"
    by (rule copy_ghi_present)
  then obtain v4 where c4: "copy_ghi ''Hong Kong, China'' ''China'' df3 = Inr (set_ghi ''Hong Kong, China'' v4 df3)" ..
  define df4 where "df4 = set_ghi ''Hong Kong, China'' v4 df3"
  have p4: "\<forall>k\<in>K. df4 k \<noteq> None"
    unfolding df4_def using p3 by (rule keeps)
  have k4: "df4 ''Singapore'' = Some sg" "df4 ''Malaysia'' = Some my"
    using k3 unfolding df4_def by (simp_all add: set_ghi_other)
  from p4 K(4) have "df4 ''Montenegro'' \<noteq> None" by (rule bspec)
  then have "\<exists>v. copy_ghi ''Kosovo'' ''Montenegro'' df4 = Inr (set_ghi ''Kosovo'' v df4)"
    by (rule copy_ghi_present)
  then obtain v5 where c5: "copy_ghi ''Kosovo'' ''Montenegro'' df4 = Inr (set_ghi ''Kosovo'' v5 df4)" ..
  define df5 where "df5 = set_ghi ''Kosovo'' v5 df4"
  have p5: "\<forall>k\<in>K. df5 k \<noteq> None"
    unfolding df5_def using p4 by (rule keeps)
  have k5: "df5 ''Singapore'' = Some sg" "df5 ''Malaysia'' = Some my"
    using k4 unfolding df5_def by (simp_all add: set_ghi_other)
  define df6 where
    "df6 = set_ghi ''Gibraltar'' (Some 0) (set_ghi ''Netherlands Antilles'' (Some 0) df5)"
  have "df5 ''Netherlands Antilles'' \<noteq> None" "df5 ''Gibraltar'' \<noteq> None"
    using p5 K(5,6) by (simp_all only: bspec[OF p5] not_False_eq_True)
  then have c6: "set_ghi_list [''Netherlands Antilles'', ''Gibraltar''] (Some 0) df5 = Inr df6"
    by (simp add: set_ghi_list_def df6_def)
  have k6: "df6 ''Singapore'' = Some sg" "df6 ''Malaysia'' = Some my"
    using k5 unfolding df6_def by (simp_all add: set_ghi_other)
  obtain na where na0: "set_ghi ''Netherlands Antilles'' (Some 0) df5 ''Netherlands Antilles'' = Some na"
    and na_v: "GHI_mean na = Some 0"
    using set_ghi_same by blast
  have na: "df6 ''Netherlands Antilles'' = Some na"
    using na0 unfolding df6_def by (simp add: set_ghi_other)
  obtain gi where gi: "df6 ''Gibraltar'' = Some gi" and gi_v: "GHI_mean gi = Some 0"
    unfolding df6_def using set_ghi_same by blast
  have "rooftop_ghi areas mg = Inr df6"
    unfolding rooftop_ghi_def df0_def[symmetric]
    by (simp add: and_then_def c1 c2 df2_def[symmetric] c3 df3_def[symmetric]
        c4 df4_def[symmetric] c5 df5_def[symmetric] c6)
  with k6 sg(2) my_v na na_v gi gi_v show ?thesis by blast
qed

lemma set_ghi_areas:
  assumes "df k = Some row"
  shows "\<exists>row'. set_ghi dst v df k = Some row'
            \<and> Area_PV_Residential row' = Area_PV_Residential row
            \<and> Area_PV_Commercial row' = Area_PV_Commercial row"
  using assms by (cases "k = dst") (simp_all add: set_ghi_def split: option.splits)

lemma same_areas_refl: "same_areas df df"
  by (simp add: same_areas_def)

lemma same_areas_trans:
  assumes "same_areas a b" and "same_areas b c"
  shows "same_areas a c"
  unfolding same_areas_def
proof (intro allI impI)
  fix k row assume "a k = Some row"
  with assms(1) obtain row' where r': "b k = Some row'"
    "Area_PV_Residential row' = Area_PV_Residential row"
    "Area_PV_Commercial row' = Area_PV_Commercial row"
    unfolding same_areas_def by blast
  with assms(2) obtain row'' where "c k = Some row''"
    "Area_PV_Residential row'' = Area_PV_Residential row'"
    "Area_PV_Commercial row'' = Area_PV_Commercial row'"
    unfolding same_areas_def by blast
  with r' show "\<exists>row'. c k = Some row' \<and> Area_PV_Residential row' = Area_PV_Residential row
                  \<and> Area_PV_Commercial row' = Area_PV_Commercial row"
    by simp
qed

lemma same_areas_set_ghi: "same_areas df (set_ghi dst v df)"
  unfolding same_areas_def using set_ghi_areas by blast

lemma same_areas_copy_ghi: "copy_ghi dst src df = Inr df' \<Longrightarrow> same_areas df df'"
  by (auto simp: copy_ghi_def same_areas_set_ghi split: option.splits)

lemma same_areas_fold: "same_areas df (fold (\<lambda>l. set_ghi l v) labels df)"
proof (induction labels arbitrary: df)
  case Nil
  show ?case by (simp add: same_areas_refl)
next
  case (Cons l labels)
  show ?case
    using same_areas_trans [OF same_areas_set_ghi Cons.IH] by simp
qed

lemma same_areas_set_ghi_list: "set_ghi_list labels v df = Inr df' \<Longrightarrow> same_areas df df'"
  by (auto simp: set_ghi_list_def same_areas_fold split: if_splits)

lemma and_then_Inr: "and_then x f = Inr y \<Longrightarrow> \<exists>v. x = Inr v \<and> f v = Inr y"
  by (cases x) (simp_all add: and_then_def)

lemma rooftop_ghi_same_areas:
  assumes "rooftop_ghi areas mg = Inr df"
  shows "same_areas (join_ghi areas mg) df"
proof -
  from assms [unfolded rooftop_ghi_def] obtain d1 where
    c1: "copy_ghi ''Singapore'' ''Malaysia'' (join_ghi areas mg) = Inr d1"
    and r1: "and_then (copy_ghi ''Bahrain'' ''Qatar'' d1) (\<lambda>df.
             and_then (copy_ghi ''Chinese Taipei'' ''China'' df) (\<lambda>df.
             and_then (copy_ghi ''Hong Kong, China'' ''China'' df) (\<lambda>df.
             and_then (copy_ghi ''Kosovo'' ''Montenegro'' df) (\<lambda>df.
             set_ghi_list [''Netherlands Antilles'', ''Gibraltar''] (Some 0) df)))) = Inr df"
    by (rule and_then_Inr [THEN exE]) (erule conjE)
  from r1 obtain d2 where c2: "copy_ghi ''Bahrain'' ''Qatar'' d1 = Inr d2"
    and r2: "and_then (copy_ghi ''Chinese Taipei'' ''China'' d2) (\<lambda>df.
             and_then (copy_ghi ''Hong Kong, China'' ''China'' df) (\<lambda>df.
             and_then (copy_ghi ''Kosovo'' ''Montenegro'' df) (\<lambda>df.
             set_ghi_list [''Netherlands Antilles'', ''Gibraltar''] (Some 0) df))) = Inr df"
    by (rule and_then_Inr [THEN exE]) (erule conjE)
  from r2 obtain d3 where c3: "copy_ghi ''Chinese Taipei'' ''China'' d2 = Inr d3"
    and r3: "and_then (copy_ghi ''Hong Kong, China'' ''China'' d3) (\<lambda>df.
             and_then (copy_ghi ''Kosovo'' ''Montenegro'' df) (\<lambda>df.
             set_ghi_list [''Netherlands Antilles'', ''Gibraltar''] (Some 0) df)) = Inr df"
    by (rule and_then_Inr [THEN exE]) (erule conjE)
  from r3 obtain d4 where c4: "copy_ghi ''Hong Kong, China'' ''China'' d3 = Inr d4"
    and r4: "and_then (copy_ghi ''Kosovo'' ''Montenegro'' d4) (\<lambda>df.
             set_ghi_list [''Netherlands Antilles'', ''Gibraltar''] (Some 0) df) = Inr df"
    by (rule and_then_Inr [THEN exE]) (erule conjE)
  from r4 obtain d5 where c5: "copy_ghi ''Kosovo'' ''Montenegro'' d4 = Inr d5"
    and c6: "set_ghi_list [''Netherlands Antilles'', ''Gibraltar''] (Some 0) d5 = Inr df"
    by (rule and_then_Inr [THEN exE]) (erule conjE)
  note s1 = same_areas_copy_ghi [OF c1] and s2 = same_areas_copy_ghi [OF c2]
    and s3 = same_areas_copy_ghi [OF c3] and s4 = same_areas_copy_ghi [OF c4]
    and s5 = same_areas_copy_ghi [OF c5] and s6 = same_areas_set_ghi_list [OF c6]
  show ?thesis
    by (rule same_areas_trans [OF s1 same_areas_trans [OF s2 same_areas_trans
        [OF s3 same_areas_trans [OF s4 same_areas_trans [OF s5 s6]]]]])
qed

lemma rooftop_ghi_areas:
  assumes "rooftop_ghi areas mg = Inr df" and "areas cn = Some (res, com)"
  shows "\<exists>row. df cn = Some row \<and> Area_PV_Residential row = res
               \<and> Area_PV_Commercial row = com"
proof -
  have "join_ghi areas mg cn
          = Some \<lparr>Area_PV_Residential = res, Area_PV_Commercial = com, GHI_mean = mg cn\<rparr>"
    using assms(2) by (simp add: join_ghi_def)
  with rooftop_ghi_same_areas [OF assms(1)]
  obtain row' where "df cn = Some row'"
    "Area_PV_Residential row'
       = Area_PV_Residential \<lparr>Area_PV_Residential = res, Area_PV_Commercial = com, GHI_mean = mg cn\<rparr>"
    "Area_PV_Commercial row'
       = Area_PV_Commercial \<lparr>Area_PV_Residential = res, Area_PV_Commercial = com, GHI_mean = mg cn\<rparr>"
    unfolding same_areas_def by blast
  then show ?thesis by simp
qed

lemma world_rooftop_pv_result:
  assumes "world_grid p m cells = Inr rows" and "rooftop_ghi areas (mean_ghi rows) = Inr df"
    and "pv_life_time p \<noteq> 0"
  shows "world_rooftop_pv p m cells areas
           = Inr (\<lambda>cn. map_option
                          (rooftop_pv_columns p m (pv_life_time_inputs p / pv_life_time p))
                          (df cn))"
  using assms by (simp add: world_rooftop_pv_def and_then_def pv_life_time_ratio_def)

lemma rooftop_pv_columns_rooftop: "rooftop (rooftop_pv_columns p m ratio row) = row"
  by (simp add: rooftop_pv_columns_def Let_def)

lemma world_rooftop_pv_overrides:
  assumes present: "{''Malaysia'', ''Qatar'', ''China'', ''Montenegro'',
                     ''Netherlands Antilles'', ''Gibraltar''} \<subseteq> dom areas"
    and nz: "pv_life_time p \<noteq> 0"
    and ok: "\<forall>r\<in>set cells. retained p r \<longrightarrow> gamma_returns m r"
  shows "\<exists>rows T sg my na gi.
           world_grid p m cells = Inr rows
           \<and> world_rooftop_pv p m cells areas = Inr T
           \<and> T ''Singapore'' = Some sg \<and> GHI_mean (rooftop sg) = mean_ghi rows ''Malaysia''
           \<and> T ''Malaysia'' = Some my \<and> GHI_mean (rooftop my) = mean_ghi rows ''Malaysia''
           \<and> T ''Netherlands Antilles'' = Some na \<and> GHI_mean (rooftop na) = Some 0
           \<and> T ''Gibraltar'' = Some gi \<and> GHI_mean (rooftop gi) = Some 0"
proof -
  from ok obtain rows where rows: "world_grid p m cells = Inr rows"
    using world_grid_returns by blast
  from rooftop_ghi_result [OF present, of "mean_ghi rows"]
  obtain df sg my na gi where df: "rooftop_ghi areas (mean_ghi rows) = Inr df"
    and v: "df ''Singapore'' = Some sg" "GHI_mean sg = mean_ghi rows ''Malaysia''"
      "df ''Malaysia'' = Some my" "GHI_mean my = mean_ghi rows ''Malaysia''"
      "df ''Netherlands Antilles'' = Some na" "GHI_mean na = Some 0"
      "df ''Gibraltar'' = Some gi" "GHI_mean gi = Some 0"
    by (elim exE conjE)
  define ratio where "ratio = pv_life_time_inputs p / pv_life_time p"
  define T where "T = (\<lambda>cn. map_option (rooftop_pv_columns p m ratio) (df cn))"
  have T: "world_rooftop_pv p m cells areas = Inr T"
    unfolding T_def ratio_def using rows df nz by (rule world_rooftop_pv_result)
  have "T ''Singapore'' = Some (rooftop_pv_columns p m ratio sg)"
    "T ''Malaysia'' = Some (rooftop_pv_columns p m ratio my)"
    "T ''Netherlands Antilles'' = Some (rooftop_pv_columns p m ratio na)"
    "T ''Gibraltar'' = Some (rooftop_pv_columns p m ratio gi)"
    by (simp_all add: T_def v)
  with rows T v(2,4,6,8) show ?thesis
    by (intro exI [of _ rows] exI [of _ T] exI [of _ "rooftop_pv_columns p m ratio sg"]
        exI [of _ "rooftop_pv_columns p m ratio my"] exI [of _ "rooftop_pv_columns p m ratio na"]
        exI [of _ "rooftop_pv_columns p m ratio gi"])
      (simp add: rooftop_pv_columns_rooftop)
qed

text \<open>
  C9. When the rooftop table holds the countries that the overrides read (Malaysia, Qatar,
  China, Montenegro) and the two that are set to zero, the overrides return a table in
  which Singapore has the mean GHI that the join gave Malaysia (and Malaysia still has
  it), and Netherlands Antilles and Gibraltar have GHI 0, whatever the means of the grid
  are, present or missing. When moreover \<open>pv_life_time\<close> is not zero and \<open>math.gamma\<close>
  returns on the retained cells, \<open>world_rooftop_pv\<close> returns a table with these values of
  GHI, the mean of Malaysia being the mean over the rows of \<open>world_grid\<close>.
\<close>

theorem rooftop_ghi_overrides:
  "({''Malaysia'', ''Qatar'', ''China'', ''Montenegro'', ''Netherlands Antilles'', ''Gibraltar''}
      \<subseteq> dom areas \<longrightarrow>
      (\<exists>df sg my na gi.
           rooftop_ghi areas mg = Inr df
           \<and> df ''Singapore'' = Some sg \<and> GHI_mean sg = mg ''Malaysia''
           \<and> df ''Malaysia'' = Some my \<and> GHI_mean my = mg ''Malaysia''
           \<and> df ''Netherlands Antilles'' = Some na \<and> GHI_mean na = Some 0
           \<and> df ''Gibraltar'' = Some gi \<and> GHI_mean gi = Some 0))
   \<and> ({''Malaysia'', ''Qatar'', ''China'', ''Montenegro'', ''Netherlands Antilles'',
        ''Gibraltar''} \<subseteq> dom areas
       \<and> pv_life_time p \<noteq> 0 \<and> (\<forall>r\<in>set cells. retained p r \<longrightarrow> gamma_returns m r) \<longrightarrow>
      (\<exists>rows T sg my na gi.
           world_grid p m cells = Inr rows
           \<and> world_rooftop_pv p m cells areas = Inr T
           \<and> T ''Singapore'' = Some sg \<and> GHI_mean (rooftop sg) = mean_ghi rows ''Malaysia''
           \<and> T ''Malaysia'' = Some my \<and> GHI_mean (rooftop my) = mean_ghi rows ''Malaysia''
           \<and> T ''Netherlands Antilles'' = Some na \<and> GHI_mean (rooftop na) = Some 0
           \<and> T ''Gibraltar'' = Some gi \<and> GHI_mean (rooftop gi) = Some 0))"
proof (rule conjI; rule impI)
  assume "{''Malaysia'', ''Qatar'', ''China'', ''Montenegro'', ''Netherlands Antilles'',
           ''Gibraltar''} \<subseteq> dom areas"
  then show "\<exists>df sg my na gi.
           rooftop_ghi areas mg = Inr df
           \<and> df ''Singapore'' = Some sg \<and> GHI_mean sg = mg ''Malaysia''
           \<and> df ''Malaysia'' = Some my \<and> GHI_mean my = mg ''Malaysia''
           \<and> df ''Netherlands Antilles'' = Some na \<and> GHI_mean na = Some 0
           \<and> df ''Gibraltar'' = Some gi \<and> GHI_mean gi = Some 0"
    by (rule rooftop_ghi_result)
next
  assume a: "{''Malaysia'', ''Qatar'', ''China'', ''Montenegro'', ''Netherlands Antilles'',
        ''Gibraltar''} \<subseteq> dom areas
       \<and> pv_life_time p \<noteq> 0 \<and> (\<forall>r\<in>set cells. retained p r \<longrightarrow> gamma_returns m r)"
  show "\<exists>rows T sg my na gi.
           world_grid p m cells = Inr rows
           \<and> world_rooftop_pv p m cells areas = Inr T
           \<and> T ''Singapore'' = Some sg \<and> GHI_mean (rooftop sg) = mean_ghi rows ''Malaysia''
           \<and> T ''Malaysia'' = Some my \<and> GHI_mean (rooftop my) = mean_ghi rows ''Malaysia''
           \<and> T ''Netherlands Antilles'' = Some na \<and> GHI_mean (rooftop na) = Some 0
           \<and> T ''Gibraltar'' = Some gi \<and> GHI_mean (rooftop gi) = Some 0"
    by (rule world_rooftop_pv_overrides) (rule a [THEN conjunct1], rule a [THEN conjunct2, THEN conjunct1],
        rule a [THEN conjunct2, THEN conjunct2])
qed


lemma Malaysia_no_pattern: "\<not> sublist ''Island'' ''Malaysia''" "\<not> sublist ''Is.'' ''Malaysia''"
  by code_simp+

lemma sample_Malaysia:
  "retained sample_params (sample_cell\<lparr>Country := Some ''Malaysia''\<rparr>)"
  by (simp add: retained_def sample_cell_def sample_params_def Malaysia_no_pattern)

lemma sample_two_cells:
  "\<forall>r\<in>set [sample_cell\<lparr>Country := Some ''Malaysia''\<rparr>, sample_cell].
     retained sample_params r \<longrightarrow> gamma_returns sample_methods r"
  "filter (retained sample_params) [sample_cell\<lparr>Country := Some ''Malaysia''\<rparr>, sample_cell]
     = [sample_cell\<lparr>Country := Some ''Malaysia''\<rparr>, sample_cell]"
  by (simp_all add: sample_cell_gamma_returns sample_Malaysia sample_cell_retained)

lemma sample_mean_ghi:
  assumes "world_grid sample_params sample_methods
             [sample_cell\<lparr>Country := Some ''Malaysia''\<rparr>, sample_cell] = Inr rows"
  shows "mean_ghi rows ''Malaysia'' = Some 100" and "mean_ghi rows ''Gibraltar'' = None"
proof -
  have "map raw rows = [sample_cell\<lparr>Country := Some ''Malaysia''\<rparr>, sample_cell]"
    using world_grid_rows(1) [OF assms] by (simp only: sample_two_cells(2))
  then obtain g1 g2 where r: "rows = [g1, g2]"
    and g: "raw g1 = sample_cell\<lparr>Country := Some ''Malaysia''\<rparr>" "raw g2 = sample_cell"
    by (auto simp: map_eq_Cons_conv)
  show "mean_ghi rows ''Malaysia'' = Some 100"
    by (simp add: mean_ghi_def r g sample_cell_fields)
  show "mean_ghi rows ''Gibraltar'' = None"
    by (simp add: mean_ghi_def r g sample_cell_fields)
qed

lemma sample_areas_present:
  "{''Malaysia'', ''Qatar'', ''China'', ''Montenegro'', ''Netherlands Antilles'', ''Gibraltar''}
     \<subseteq> dom sample_areas"
  by (simp add: sample_areas_def)

theorem rooftop_ghi_overrides_witness:
  "{''Malaysia'', ''Qatar'', ''China'', ''Montenegro'', ''Netherlands Antilles'', ''Gibraltar''}
     \<subseteq> dom sample_areas
   \<and> pv_life_time sample_params \<noteq> 0
   \<and> gamma_returns sample_methods (sample_cell\<lparr>Country := Some ''Malaysia''\<rparr>)
   \<and> gamma_returns sample_methods sample_cell
   \<and> (\<exists>rows T sg na gi.
         world_grid sample_params sample_methods
           [sample_cell\<lparr>Country := Some ''Malaysia''\<rparr>, sample_cell] = Inr rows
         \<and> mean_ghi rows ''Malaysia'' = Some 100 \<and> mean_ghi rows ''Gibraltar'' = None
         \<and> world_rooftop_pv sample_params sample_methods
             [sample_cell\<lparr>Country := Some ''Malaysia''\<rparr>, sample_cell] sample_areas = Inr T
         \<and> T ''Singapore'' = Some sg \<and> GHI_mean (rooftop sg) = Some 100
         \<and> T ''Netherlands Antilles'' = Some na \<and> GHI_mean (rooftop na) = Some 0
         \<and> T ''Gibraltar'' = Some gi \<and> GHI_mean (rooftop gi) = Some 0)"
proof -
  let ?cells = "[sample_cell\<lparr>Country := Some ''Malaysia''\<rparr>, sample_cell]"
  have nz: "pv_life_time sample_params \<noteq> 0"
    by (simp add: sample_params_def)
  note h = sample_areas_present nz sample_two_cells(1)
  have "\<exists>rows T sg my na gi.
           world_grid sample_params sample_methods ?cells = Inr rows
           \<and> world_rooftop_pv sample_params sample_methods ?cells sample_areas = Inr T
           \<and> T ''Singapore'' = Some sg \<and> GHI_mean (rooftop sg) = mean_ghi rows ''Malaysia''
           \<and> T ''Malaysia'' = Some my \<and> GHI_mean (rooftop my) = mean_ghi rows ''Malaysia''
           \<and> T ''Netherlands Antilles'' = Some na \<and> GHI_mean (rooftop na) = Some 0
           \<and> T ''Gibraltar'' = Some gi \<and> GHI_mean (rooftop gi) = Some 0"
    by (rule rooftop_ghi_overrides [of sample_areas _ sample_params ?cells sample_methods,
          THEN conjunct2, THEN mp]) (intro conjI h)
  then obtain rows T sg my na gi where
    rows: "world_grid sample_params sample_methods ?cells = Inr rows"
    and T: "world_rooftop_pv sample_params sample_methods ?cells sample_areas = Inr T"
    and v: "T ''Singapore'' = Some sg" "GHI_mean (rooftop sg) = mean_ghi rows ''Malaysia''"
      "T ''Netherlands Antilles'' = Some na" "GHI_mean (rooftop na) = Some 0"
      "T ''Gibraltar'' = Some gi" "GHI_mean (rooftop gi) = Some 0"
    and "T ''Malaysia'' = Some my"
    by (elim exE conjE)
  note mg = sample_mean_ghi [OF rows]
  have ex: "\<exists>rows T sg na gi.
         world_grid sample_params sample_methods ?cells = Inr rows
         \<and> mean_ghi rows ''Malaysia'' = Some 100 \<and> mean_ghi rows ''Gibraltar'' = None
         \<and> world_rooftop_pv sample_params sample_methods ?cells sample_areas = Inr T
         \<and> T ''Singapore'' = Some sg \<and> GHI_mean (rooftop sg) = Some 100
         \<and> T ''Netherlands Antilles'' = Some na \<and> GHI_mean (rooftop na) = Some 0
         \<and> T ''Gibraltar'' = Some gi \<and> GHI_mean (rooftop gi) = Some 0"
    by (intro exI [of _ rows] exI [of _ T] exI [of _ sg] exI [of _ na] exI [of _ gi] conjI)
       (rule rows mg T v(1,3,4,5,6) | simp only: v(2) mg(1))+
  show ?thesis
    by (intro conjI) (rule sample_areas_present nz sample_cell_gamma_returns ex)+
qed


lemma quotient_of_sum:
  fixes u :: real
  assumes "a = u * b" and "c = u * d" and "0 < b" and "0 < d"
  shows "(a + c) / (b + d) = u"
proof -
  have "a + c = u * (b + d)" using assms(1,2) by (simp add: distrib_left)
  moreover have "b + d \<noteq> 0" using assms(3,4) by simp
  ultimately show ?thesis by simp
qed

lemma rooftop_columns_unit_eroi:
  assumes res: "Area_PV_Residential row = Some ar" "0 < ar"
    and com: "Area_PV_Commercial row = Some ac" "0 < ac"
    and ghi: "GHI_mean row = Some g"
    and pos: "0 < sf_residential p" "0 < sf_commercial p" "0 < wc_pv_panel p"
      "0 < pv_life_time_inputs p" "0 < pv_life_time p"
    and out: "out = rooftop_pv_columns p m (pv_life_time_inputs p / pv_life_time p) row"
  shows "rooftop_pv_eroi out = Some (rooftop_unit_eroi p m g)
         \<and> fdiv (residential_e out) (residential_e_in out) = Some (rooftop_unit_eroi p m g)
         \<and> fdiv (commercial_e out) (commercial_e_in out) = Some (rooftop_unit_eroi p m g)
         \<and> fdiv (rooftop_pv_e out) (rooftop_pv_e_in out) = Some (rooftop_unit_eroi p m g)"
proof -
  define ratio where "ratio = pv_life_time_inputs p / pv_life_time p"
  define oef where "oef = (if remove_operational_e p then 1 - oe_pv p else 1)"
  define unit_in where "unit_in = ratio * wc_pv_panel p / 10 ^ 9"
  define u where "u = rooftop_unit_eroi p m g"
  define eff_r where "eff_r = ar * 10 ^ 6 * sf_residential p / 10 ^ 18"
  define eff_c where "eff_c = ac * 10 ^ 6 * sf_commercial p / 10 ^ 18"
  have ratio_pos: "0 < ratio"
    using pos(4,5) by (simp add: ratio_def)
  have unit_in_pos: "0 < unit_in"
    using ratio_pos pos(3) by (simp add: unit_in_def)
  have eff_pos: "0 < eff_r" "0 < eff_c"
    using res(2) com(2) pos(1,2) by (simp_all add: eff_r_def eff_c_def)
  have u_quot: "u = solar_output_factor m * g * oef / unit_in"
    unfolding u_def rooftop_unit_eroi_def unit_in_def ratio_def oef_def ..
  have u_eq: "u * unit_in = solar_output_factor m * g * oef"
    using unit_in_pos by (simp add: u_quot)
  have re: "residential_e out = Some (solar_output_factor m * g * oef * eff_r)"
    using res(1) ghi
    by (simp add: out rooftop_pv_columns_def Let_def E_out_solar_def fmul_def oef_def eff_r_def)
  have ce: "commercial_e out = Some (solar_output_factor m * g * oef * eff_c)"
    using com(1) ghi
    by (simp add: out rooftop_pv_columns_def Let_def E_out_solar_def fmul_def oef_def eff_c_def)
  have ri: "residential_e_in out = Some (unit_in * eff_r)"
    using res(1)
    by (simp add: out rooftop_pv_columns_def Let_def fmul_def fdiv_def unit_in_def eff_r_def
        ratio_def)
  have ci: "commercial_e_in out = Some (unit_in * eff_c)"
    using com(1)
    by (simp add: out rooftop_pv_columns_def Let_def fmul_def fdiv_def unit_in_def eff_c_def
        ratio_def)
  have pe: "rooftop_pv_e out = fadd (residential_e out) (commercial_e out)"
    and pi: "rooftop_pv_e_in out = fadd (residential_e_in out) (commercial_e_in out)"
    and pq: "rooftop_pv_eroi out = fdiv (rooftop_pv_e out) (rooftop_pv_e_in out)"
    by (simp_all add: out rooftop_pv_columns_def Let_def)
  have in_pos: "0 < unit_in * eff_r" "0 < unit_in * eff_c"
    using unit_in_pos eff_pos by simp_all
  have nr: "solar_output_factor m * g * oef * eff_r = u * (unit_in * eff_r)"
    and nc: "solar_output_factor m * g * oef * eff_c = u * (unit_in * eff_c)"
    using u_eq by (simp_all add: mult.assoc[symmetric])
  have nz: "unit_in \<noteq> 0" "eff_r \<noteq> 0" "eff_c \<noteq> 0"
    using unit_in_pos eff_pos by simp_all
  have qr: "fdiv (residential_e out) (residential_e_in out) = Some u"
    using nz by (simp add: re ri fdiv_def nr)
  have qc: "fdiv (commercial_e out) (commercial_e_in out) = Some u"
    using nz by (simp add: ce ci fdiv_def nc)
  have sum_pos: "unit_in * eff_r + unit_in * eff_c \<noteq> 0"
    using in_pos by simp
  have "(solar_output_factor m * g * oef * eff_r + solar_output_factor m * g * oef * eff_c)
          / (unit_in * eff_r + unit_in * eff_c) = u"
    using nr nc in_pos by (rule quotient_of_sum)
  then have qt: "fdiv (rooftop_pv_e out) (rooftop_pv_e_in out) = Some u"
    using sum_pos by (simp add: pe pi re ce ri ci fadd_def fdiv_def)
  show ?thesis
    using qr qc qt pq by (simp add: u_def)
qed

lemma world_rooftop_pv_Inr:
  assumes "world_rooftop_pv p m cells areas = Inr T"
  shows "\<exists>rows df. world_grid p m cells = Inr rows
           \<and> rooftop_ghi areas (mean_ghi rows) = Inr df \<and> pv_life_time p \<noteq> 0
           \<and> T = (\<lambda>cn. map_option
                          (rooftop_pv_columns p m (pv_life_time_inputs p / pv_life_time p))
                          (df cn))"
  using assms
  by (auto simp: world_rooftop_pv_def and_then_def pv_life_time_ratio_def
      split: sum.splits if_splits)

lemma world_rooftop_pv_row:
  assumes "world_rooftop_pv p m cells areas = Inr T" and "T cn = Some out"
  shows "out = rooftop_pv_columns p m (pv_life_time_inputs p / pv_life_time p) (rooftop out)"
proof -
  from world_rooftop_pv_Inr [OF assms(1)] obtain df where
    "T = (\<lambda>cn. map_option
                  (rooftop_pv_columns p m (pv_life_time_inputs p / pv_life_time p)) (df cn))"
    by blast
  with assms(2) obtain row where
    "out = rooftop_pv_columns p m (pv_life_time_inputs p / pv_life_time p) row"
    by auto
  then show ?thesis
    by (simp add: rooftop_pv_columns_rooftop)
qed

lemma world_rooftop_pv_areas:
  assumes "world_rooftop_pv p m cells areas = Inr T" and "areas cn = Some (res, com)"
  shows "\<exists>out. T cn = Some out \<and> Area_PV_Residential (rooftop out) = res
               \<and> Area_PV_Commercial (rooftop out) = com"
proof -
  from world_rooftop_pv_Inr [OF assms(1)] obtain rows df where
    df: "rooftop_ghi areas (mean_ghi rows) = Inr df"
    and T: "T = (\<lambda>cn. map_option
                  (rooftop_pv_columns p m (pv_life_time_inputs p / pv_life_time p)) (df cn))"
    by blast
  from rooftop_ghi_areas [OF df assms(2)] obtain row where
    "df cn = Some row" "Area_PV_Residential row = res" "Area_PV_Commercial row = com"
    by blast
  then show ?thesis
    by (simp add: T rooftop_pv_columns_rooftop)
qed

text \<open>
  C10. For a rooftop row whose two areas are positive and whose GHI is defined, and for
  positive constants \<open>sf_residential\<close>, \<open>sf_commercial\<close>, \<open>wc_pv_panel\<close>,
  \<open>pv_life_time_inputs\<close> and \<open>pv_life_time\<close>, the residential quotient, the commercial
  quotient and the combined \<open>pv_eroi\<close> are all the unit ratio \<open>rooftop_unit_eroi\<close>, which is
  a function of the GHI and the constants and of neither area. This holds of the columns
  of any row, and of every row of the table that \<open>world_rooftop_pv\<close> returns, which it
  does when the countries of the overrides are in the rooftop table and \<open>math.gamma\<close>
  returns on the retained cells.
\<close>

theorem rooftop_eroi_area_independent:
  "(Area_PV_Residential row = Some ar \<and> 0 < ar \<and> Area_PV_Commercial row = Some ac \<and> 0 < ac
      \<and> GHI_mean row = Some g
      \<and> 0 < sf_residential p \<and> 0 < sf_commercial p \<and> 0 < wc_pv_panel p
      \<and> 0 < pv_life_time_inputs p \<and> 0 < pv_life_time p
      \<and> out = rooftop_pv_columns p m (pv_life_time_inputs p / pv_life_time p) row \<longrightarrow>
        rooftop_pv_eroi out = Some (rooftop_unit_eroi p m g)
        \<and> fdiv (residential_e out) (residential_e_in out) = Some (rooftop_unit_eroi p m g)
        \<and> fdiv (commercial_e out) (commercial_e_in out) = Some (rooftop_unit_eroi p m g)
        \<and> fdiv (rooftop_pv_e out) (rooftop_pv_e_in out) = Some (rooftop_unit_eroi p m g))
   \<and> ({''Malaysia'', ''Qatar'', ''China'', ''Montenegro'', ''Netherlands Antilles'',
        ''Gibraltar''} \<subseteq> dom areas
       \<and> (\<forall>r\<in>set cells. retained p r \<longrightarrow> gamma_returns m r)
       \<and> 0 < sf_residential p \<and> 0 < sf_commercial p \<and> 0 < wc_pv_panel p
       \<and> 0 < pv_life_time_inputs p \<and> 0 < pv_life_time p \<longrightarrow>
        (\<exists>T. world_rooftop_pv p m cells areas = Inr T
           \<and> (\<forall>cn o' ar' ac' g'.
                 T cn = Some o' \<and> Area_PV_Residential (rooftop o') = Some ar' \<and> 0 < ar'
                 \<and> Area_PV_Commercial (rooftop o') = Some ac' \<and> 0 < ac'
                 \<and> GHI_mean (rooftop o') = Some g' \<longrightarrow>
                   rooftop_pv_eroi o' = Some (rooftop_unit_eroi p m g')
                   \<and> fdiv (residential_e o') (residential_e_in o')
                       = Some (rooftop_unit_eroi p m g')
                   \<and> fdiv (commercial_e o') (commercial_e_in o')
                       = Some (rooftop_unit_eroi p m g')
                   \<and> fdiv (rooftop_pv_e o') (rooftop_pv_e_in o')
                       = Some (rooftop_unit_eroi p m g'))))"
proof (rule conjI; rule impI)
  assume a: "Area_PV_Residential row = Some ar \<and> 0 < ar \<and> Area_PV_Commercial row = Some ac
      \<and> 0 < ac \<and> GHI_mean row = Some g
      \<and> 0 < sf_residential p \<and> 0 < sf_commercial p \<and> 0 < wc_pv_panel p
      \<and> 0 < pv_life_time_inputs p \<and> 0 < pv_life_time p
      \<and> out = rooftop_pv_columns p m (pv_life_time_inputs p / pv_life_time p) row"
  show "rooftop_pv_eroi out = Some (rooftop_unit_eroi p m g)
        \<and> fdiv (residential_e out) (residential_e_in out) = Some (rooftop_unit_eroi p m g)
        \<and> fdiv (commercial_e out) (commercial_e_in out) = Some (rooftop_unit_eroi p m g)
        \<and> fdiv (rooftop_pv_e out) (rooftop_pv_e_in out) = Some (rooftop_unit_eroi p m g)"
    by (rule rooftop_columns_unit_eroi
        [OF a [THEN conjunct1]
      a [THEN conjunct2, THEN conjunct1]
      a [THEN conjunct2, THEN conjunct2, THEN conjunct1]
      a [THEN conjunct2, THEN conjunct2, THEN conjunct2, THEN conjunct1]
      a [THEN conjunct2, THEN conjunct2, THEN conjunct2, THEN conjunct2, THEN conjunct1]
      a [THEN conjunct2, THEN conjunct2, THEN conjunct2, THEN conjunct2, THEN conjunct2,
          THEN conjunct1]
      a [THEN conjunct2, THEN conjunct2, THEN conjunct2, THEN conjunct2, THEN conjunct2,
          THEN conjunct2, THEN conjunct1]
      a [THEN conjunct2, THEN conjunct2, THEN conjunct2, THEN conjunct2, THEN conjunct2,
          THEN conjunct2, THEN conjunct2, THEN conjunct1]
      a [THEN conjunct2, THEN conjunct2, THEN conjunct2, THEN conjunct2, THEN conjunct2,
          THEN conjunct2, THEN conjunct2, THEN conjunct2, THEN conjunct1]
      a [THEN conjunct2, THEN conjunct2, THEN conjunct2, THEN conjunct2, THEN conjunct2,
          THEN conjunct2, THEN conjunct2, THEN conjunct2, THEN conjunct2, THEN conjunct1]
      a [THEN conjunct2, THEN conjunct2, THEN conjunct2, THEN conjunct2, THEN conjunct2,
          THEN conjunct2, THEN conjunct2, THEN conjunct2, THEN conjunct2, THEN conjunct2]])
next
  assume a: "{''Malaysia'', ''Qatar'', ''China'', ''Montenegro'', ''Netherlands Antilles'',
        ''Gibraltar''} \<subseteq> dom areas
       \<and> (\<forall>r\<in>set cells. retained p r \<longrightarrow> gamma_returns m r)
       \<and> 0 < sf_residential p \<and> 0 < sf_commercial p \<and> 0 < wc_pv_panel p
       \<and> 0 < pv_life_time_inputs p \<and> 0 < pv_life_time p"
  note present = a [THEN conjunct1] and ok = a [THEN conjunct2, THEN conjunct1]
    and pos = a [THEN conjunct2, THEN conjunct2, THEN conjunct1]
      a [THEN conjunct2, THEN conjunct2, THEN conjunct2, THEN conjunct1]
      a [THEN conjunct2, THEN conjunct2, THEN conjunct2, THEN conjunct2, THEN conjunct1]
      a [THEN conjunct2, THEN conjunct2, THEN conjunct2, THEN conjunct2, THEN conjunct2,
          THEN conjunct1]
      a [THEN conjunct2, THEN conjunct2, THEN conjunct2, THEN conjunct2, THEN conjunct2,
          THEN conjunct2]
  from pos(5) have nz: "pv_life_time p \<noteq> 0" by simp
  from world_rooftop_pv_overrides [OF present nz ok]
  obtain T where T: "world_rooftop_pv p m cells areas = Inr T"
    by (elim exE conjE)
  have "\<forall>cn o' ar' ac' g'.
                 T cn = Some o' \<and> Area_PV_Residential (rooftop o') = Some ar' \<and> 0 < ar'
                 \<and> Area_PV_Commercial (rooftop o') = Some ac' \<and> 0 < ac'
                 \<and> GHI_mean (rooftop o') = Some g' \<longrightarrow>
                   rooftop_pv_eroi o' = Some (rooftop_unit_eroi p m g')
                   \<and> fdiv (residential_e o') (residential_e_in o')
                       = Some (rooftop_unit_eroi p m g')
                   \<and> fdiv (commercial_e o') (commercial_e_in o')
                       = Some (rooftop_unit_eroi p m g')
                   \<and> fdiv (rooftop_pv_e o') (rooftop_pv_e_in o')
                       = Some (rooftop_unit_eroi p m g')"
  proof (intro allI impI)
    fix cn o' ar' ac' g'
    assume b: "T cn = Some o' \<and> Area_PV_Residential (rooftop o') = Some ar' \<and> 0 < ar'
                 \<and> Area_PV_Commercial (rooftop o') = Some ac' \<and> 0 < ac'
                 \<and> GHI_mean (rooftop o') = Some g'"
    have o: "o' = rooftop_pv_columns p m (pv_life_time_inputs p / pv_life_time p) (rooftop o')"
      using T b [THEN conjunct1] by (rule world_rooftop_pv_row)
    note r = b [THEN conjunct2, THEN conjunct1]
      b [THEN conjunct2, THEN conjunct2, THEN conjunct1]
      b [THEN conjunct2, THEN conjunct2, THEN conjunct2, THEN conjunct1]
      b [THEN conjunct2, THEN conjunct2, THEN conjunct2, THEN conjunct2, THEN conjunct1]
      b [THEN conjunct2, THEN conjunct2, THEN conjunct2, THEN conjunct2, THEN conjunct2]
    show "rooftop_pv_eroi o' = Some (rooftop_unit_eroi p m g')
                   \<and> fdiv (residential_e o') (residential_e_in o')
                       = Some (rooftop_unit_eroi p m g')
                   \<and> fdiv (commercial_e o') (commercial_e_in o')
                       = Some (rooftop_unit_eroi p m g')
                   \<and> fdiv (rooftop_pv_e o') (rooftop_pv_e_in o')
                       = Some (rooftop_unit_eroi p m g')"
      using r pos o by (rule rooftop_columns_unit_eroi)
  qed
  with T show "\<exists>T. world_rooftop_pv p m cells areas = Inr T
           \<and> (\<forall>cn o' ar' ac' g'.
                 T cn = Some o' \<and> Area_PV_Residential (rooftop o') = Some ar' \<and> 0 < ar'
                 \<and> Area_PV_Commercial (rooftop o') = Some ac' \<and> 0 < ac'
                 \<and> GHI_mean (rooftop o') = Some g' \<longrightarrow>
                   rooftop_pv_eroi o' = Some (rooftop_unit_eroi p m g')
                   \<and> fdiv (residential_e o') (residential_e_in o')
                       = Some (rooftop_unit_eroi p m g')
                   \<and> fdiv (commercial_e o') (commercial_e_in o')
                       = Some (rooftop_unit_eroi p m g')
                   \<and> fdiv (rooftop_pv_e o') (rooftop_pv_e_in o')
                       = Some (rooftop_unit_eroi p m g'))"
    by (intro exI [of _ T] conjI)
qed

theorem rooftop_eroi_area_independent_witness:
  "{''Malaysia'', ''Qatar'', ''China'', ''Montenegro'', ''Netherlands Antilles'', ''Gibraltar''}
     \<subseteq> dom sample_areas
   \<and> gamma_returns sample_methods (sample_cell\<lparr>Country := Some ''Malaysia''\<rparr>)
   \<and> gamma_returns sample_methods sample_cell
   \<and> 0 < sf_residential sample_params \<and> 0 < sf_commercial sample_params
   \<and> 0 < wc_pv_panel sample_params \<and> 0 < pv_life_time_inputs sample_params
   \<and> 0 < pv_life_time sample_params
   \<and> rooftop_unit_eroi sample_params sample_methods 100 = 61893750000 / 19584
   \<and> (\<exists>T my sg.
         world_rooftop_pv sample_params sample_methods
           [sample_cell\<lparr>Country := Some ''Malaysia''\<rparr>, sample_cell] sample_areas = Inr T
         \<and> T ''Malaysia'' = Some my
         \<and> Area_PV_Residential (rooftop my) = Some 100 \<and> Area_PV_Commercial (rooftop my) = Some 50
         \<and> rooftop_pv_eroi my = Some (61893750000 / 19584)
         \<and> T ''Singapore'' = Some sg
         \<and> Area_PV_Residential (rooftop sg) = Some 10 \<and> Area_PV_Commercial (rooftop sg) = Some 20
         \<and> rooftop_pv_eroi sg = Some (61893750000 / 19584))
   \<and> rooftop_pv_eroi (rooftop_pv_columns sample_params sample_methods 652800
        \<lparr>Area_PV_Residential = Some 7, Area_PV_Commercial = Some 900, GHI_mean = Some 100\<rparr>)
       = Some (61893750000 / 19584)"
proof -
  let ?cells = "[sample_cell\<lparr>Country := Some ''Malaysia''\<rparr>, sample_cell]"
  have c: "0 < sf_residential sample_params" "0 < sf_commercial sample_params"
    "0 < wc_pv_panel sample_params" "0 < pv_life_time_inputs sample_params"
    "0 < pv_life_time sample_params"
    by (simp_all add: sample_params_def)
  have nz: "pv_life_time sample_params \<noteq> 0"
    by (simp add: sample_params_def)
  have r: "pv_life_time_inputs sample_params / pv_life_time sample_params = 652800"
    by (simp add: sample_params_def)
  have u: "rooftop_unit_eroi sample_params sample_methods 100 = 61893750000 / 19584"
    by (simp add: rooftop_unit_eroi_def sample_params_def sample_methods_def)
  let ?row = "\<lparr>Area_PV_Residential = Some 7, Area_PV_Commercial = Some 900, GHI_mean = Some 100\<rparr>"
  note t = rooftop_eroi_area_independent [of ?row 7 900 100 sample_params
      "rooftop_pv_columns sample_params sample_methods 652800 ?row" sample_methods
      sample_areas ?cells]
  have "rooftop_pv_eroi (rooftop_pv_columns sample_params sample_methods 652800 ?row)
          = Some (rooftop_unit_eroi sample_params sample_methods 100)"
    by (rule t [THEN conjunct1, THEN mp, THEN conjunct1]) (simp add: c r)
  then have row: "rooftop_pv_eroi (rooftop_pv_columns sample_params sample_methods 652800 ?row)
          = Some (61893750000 / 19584)"
    by (simp only: u)
  have "\<exists>T. world_rooftop_pv sample_params sample_methods ?cells sample_areas = Inr T
           \<and> (\<forall>cn o' ar' ac' g'.
                 T cn = Some o' \<and> Area_PV_Residential (rooftop o') = Some ar' \<and> 0 < ar'
                 \<and> Area_PV_Commercial (rooftop o') = Some ac' \<and> 0 < ac'
                 \<and> GHI_mean (rooftop o') = Some g' \<longrightarrow>
                   rooftop_pv_eroi o' = Some (rooftop_unit_eroi sample_params sample_methods g')
                   \<and> fdiv (residential_e o') (residential_e_in o')
                       = Some (rooftop_unit_eroi sample_params sample_methods g')
                   \<and> fdiv (commercial_e o') (commercial_e_in o')
                       = Some (rooftop_unit_eroi sample_params sample_methods g')
                   \<and> fdiv (rooftop_pv_e o') (rooftop_pv_e_in o')
                       = Some (rooftop_unit_eroi sample_params sample_methods g'))"
    by (rule t [THEN conjunct2, THEN mp]) (intro conjI sample_areas_present sample_two_cells(1) c)
  then obtain T where T: "world_rooftop_pv sample_params sample_methods ?cells sample_areas = Inr T"
    and all: "\<And>cn o' ar' ac' g'.
                 T cn = Some o' \<Longrightarrow> Area_PV_Residential (rooftop o') = Some ar' \<Longrightarrow> 0 < ar'
                 \<Longrightarrow> Area_PV_Commercial (rooftop o') = Some ac' \<Longrightarrow> 0 < ac'
                 \<Longrightarrow> GHI_mean (rooftop o') = Some g'
                 \<Longrightarrow> rooftop_pv_eroi o' = Some (rooftop_unit_eroi sample_params sample_methods g')"
    by blast
  from world_rooftop_pv_overrides [OF sample_areas_present nz sample_two_cells(1)]
  obtain rows T' sg' my' where rows: "world_grid sample_params sample_methods ?cells = Inr rows"
    and T': "world_rooftop_pv sample_params sample_methods ?cells sample_areas = Inr T'"
    and g: "T' ''Singapore'' = Some sg'" "GHI_mean (rooftop sg') = mean_ghi rows ''Malaysia''"
      "T' ''Malaysia'' = Some my'" "GHI_mean (rooftop my') = mean_ghi rows ''Malaysia''"
    by (elim exE conjE)
  have TT: "T' = T" using T T' by simp
  note mg = sample_mean_ghi(1) [OF rows]
  have am: "sample_areas ''Malaysia'' = Some (Some 100, Some 50)"
    and as: "sample_areas ''Singapore'' = Some (Some 10, Some 20)"
    by (simp_all add: sample_areas_def)
  from world_rooftop_pv_areas [OF T am] g(3)
  have my: "Area_PV_Residential (rooftop my') = Some 100" "Area_PV_Commercial (rooftop my') = Some 50"
    unfolding TT by simp_all
  from world_rooftop_pv_areas [OF T as] g(1)
  have sg: "Area_PV_Residential (rooftop sg') = Some 10" "Area_PV_Commercial (rooftop sg') = Some 20"
    unfolding TT by simp_all
  have e1: "rooftop_pv_eroi my' = Some (61893750000 / 19584)"
    using all [OF g(3) [unfolded TT] my(1) _ my(2) _ g(4) [unfolded mg]] by (simp add: u)
  have e2: "rooftop_pv_eroi sg' = Some (61893750000 / 19584)"
    using all [OF g(1) [unfolded TT] sg(1) _ sg(2) _ g(2) [unfolded mg]] by (simp add: u)
  have ex: "\<exists>T my sg.
         world_rooftop_pv sample_params sample_methods ?cells sample_areas = Inr T
         \<and> T ''Malaysia'' = Some my
         \<and> Area_PV_Residential (rooftop my) = Some 100 \<and> Area_PV_Commercial (rooftop my) = Some 50
         \<and> rooftop_pv_eroi my = Some (61893750000 / 19584)
         \<and> T ''Singapore'' = Some sg
         \<and> Area_PV_Residential (rooftop sg) = Some 10 \<and> Area_PV_Commercial (rooftop sg) = Some 20
         \<and> rooftop_pv_eroi sg = Some (61893750000 / 19584)"
    by (intro exI [of _ T] exI [of _ my'] exI [of _ sg'] conjI)
       (rule T g(3) [unfolded TT] g(1) [unfolded TT] my sg e1 e2)+
  show ?thesis
    by (intro conjI) (rule sample_areas_present sample_cell_gamma_returns c u ex row)+
qed


end
